theory Spec2Isabelle
  imports Complex_Main "HOL-Library.AList"
begin

section \<open>JavaScript values\<close>

text \<open>
  The handlers of the admin meal controller read a request, compare a few
  properties of its body and delegate to the \<open>Meal\<close> model. The body
  is whatever the JSON body parser produced, so its properties are arbitrary
  JavaScript values, not the numbers the TypeScript interface
  \<open>CreateMealRequest\<close> announces.

  A JavaScript Number is either NaN, an infinity or a finite value. Finite
  values are kept as rationals: the handlers only compare a Number with zero,
  and a double (including negative zero) compares with zero as the rational
  it denotes. An object is the list of its own properties, each key occurring
  once, as in a parsed object.
\<close>

datatype number = NaN | NegInf | Fin rat | PosInf

datatype jsval =
    JUndefined
  | JNull
  | JBool bool
  | JNum number
  | JStr string
  | JArr "jsval list"
  | JObj "(string \<times> jsval) list"

text \<open>ToBoolean, the test behind \<open>!name\<close>. It never throws.\<close>

fun number_truthy :: "number \<Rightarrow> bool" where
  "number_truthy NaN = False"
| "number_truthy (Fin q) = (q \<noteq> 0)"
| "number_truthy NegInf = True"
| "number_truthy PosInf = True"

fun truthy :: "jsval \<Rightarrow> bool" where
  "truthy JUndefined = False"
| "truthy JNull = False"
| "truthy (JBool b) = b"
| "truthy (JNum n) = number_truthy n"
| "truthy (JStr s) = (s \<noteq> [])"
| "truthy (JArr xs) = True"
| "truthy (JObj ps) = True"

section \<open>Thrown values\<close>

text \<open>
  What a store call rejects with, or an expression of the handler throws.
  Any value can be thrown. \<open>null\<close> and \<open>undefined\<close> are \<open>Nullish\<close>:
  reading a property of them throws. Of every other value the catch clauses
  read \<open>name\<close> and \<open>message\<close>, as \<open>{ name?: string }\<close> and
  \<open>{ message?: string }\<close>; it is kept as those two optional strings.
\<close>

datatype thrown = Nullish | Thrown "string option" "string option"

definition type_error :: "string \<Rightarrow> thrown" where
  "type_error msg = Thrown (Some ''TypeError'') (Some msg)"

section \<open>Comparing with zero\<close>

text \<open>
  \<open>x < 0\<close> converts \<open>x\<close> with ToNumber. On \<open>undefined\<close>, \<open>null\<close>,
  booleans and numbers the result is fixed by the language. An object is
  first converted to a primitive: \<open>valueOf\<close> is tried, then
  \<open>toString\<close>. A parsed object holds no function and the inherited
  \<open>valueOf\<close> returns the object itself, so \<open>valueOf\<close> never yields a
  primitive; with an own \<open>toString\<close> property, which is not callable, the
  conversion throws a TypeError, and without one the inherited
  \<open>toString\<close> yields \<open>'[object Object]'\<close>, which reads as NaN.

  A string is parsed as a numeric literal and rounded to a double, which
  cannot throw. An array is joined to a string, which throws when an element
  cannot be converted, and the string is parsed. Parsing and joining are not
  modelled: they are the two fields of \<open>coercion\<close>, \<open>None\<close> standing
  for the TypeError, and every theorem below holds whatever they compute.
\<close>

record coercion =
  string_to_number :: "string \<Rightarrow> number"
  array_to_number :: "jsval list \<Rightarrow> number option"

definition cannot_convert :: thrown where
  "cannot_convert = type_error ''Cannot convert object to primitive value''"

fun to_number :: "coercion \<Rightarrow> jsval \<Rightarrow> thrown + number" where
  "to_number K JUndefined = Inr NaN"
| "to_number K JNull = Inr (Fin 0)"
| "to_number K (JBool b) = Inr (Fin (if b then 1 else 0))"
| "to_number K (JNum n) = Inr n"
| "to_number K (JStr s) = Inr (string_to_number K s)"
| "to_number K (JArr xs) =
     (case array_to_number K xs of None \<Rightarrow> Inl cannot_convert | Some n \<Rightarrow> Inr n)"
| "to_number K (JObj ps) =
     (if map_of ps ''toString'' = None then Inr NaN else Inl cannot_convert)"

fun number_lt_zero :: "number \<Rightarrow> bool" where
  "number_lt_zero NaN = False"
| "number_lt_zero NegInf = True"
| "number_lt_zero (Fin q) = (q < 0)"
| "number_lt_zero PosInf = False"

fun number_ge_zero :: "number \<Rightarrow> bool" where
  "number_ge_zero NaN = False"
| "number_ge_zero NegInf = False"
| "number_ge_zero (Fin q) = (0 \<le> q)"
| "number_ge_zero PosInf = True"

text \<open>\<open>v < 0\<close>: the truth value, or what the conversion throws.\<close>

definition lt_zero :: "coercion \<Rightarrow> jsval \<Rightarrow> thrown + bool" where
  "lt_zero K v = (case to_number K v of Inl e \<Rightarrow> Inl e | Inr n \<Rightarrow> Inr (number_lt_zero n))"

text \<open>\<open>v >= 0\<close> holds: the conversion does not throw and the number is at least zero.\<close>

definition ge_zero :: "coercion \<Rightarrow> jsval \<Rightarrow> bool" where
  "ge_zero K v = (case to_number K v of Inl e \<Rightarrow> False | Inr n \<Rightarrow> number_ge_zero n)"

text \<open>\<open>a || b\<close> and \<open>a && b\<close> on such results, evaluated left to right.\<close>

definition or_else :: "thrown + bool \<Rightarrow> thrown + bool \<Rightarrow> thrown + bool" where
  "or_else a b = (case a of Inl e \<Rightarrow> Inl e | Inr t \<Rightarrow> if t then Inr True else b)"

definition and_then :: "thrown + bool \<Rightarrow> thrown + bool \<Rightarrow> thrown + bool" where
  "and_then a b = (case a of Inl e \<Rightarrow> Inl e | Inr t \<Rightarrow> if t then b else Inr False)"

section \<open>Property access\<close>

text \<open>
  Reading the properties of \<open>req.body\<close>, by destructuring in
  \<open>createMeal\<close> and by member access in \<open>updateMeal\<close>: on
  \<open>undefined\<close> and \<open>null\<close> it throws a TypeError; on an object it
  yields the property or \<open>undefined\<close>; on a primitive or an array none of
  the names the handlers read (\<open>name\<close>, \<open>description\<close>, \<open>image\<close>,
  \<open>calories\<close>, \<open>carbs\<close>, \<open>protein\<close>, \<open>fat\<close>, \<open>weightGrams\<close>)
  exists, so it yields \<open>undefined\<close>.
\<close>

definition lookup :: "(string \<times> jsval) list \<Rightarrow> string \<Rightarrow> jsval" where
  "lookup ps k = (case map_of ps k of None \<Rightarrow> JUndefined | Some v \<Rightarrow> v)"

fun props :: "jsval \<Rightarrow> thrown + (string \<Rightarrow> jsval)" where
  "props JUndefined = Inl (type_error ''Cannot read properties of undefined'')"
| "props JNull = Inl (type_error ''Cannot read properties of null'')"
| "props (JObj ps) = Inr (lookup ps)"
| "props v = Inr (\<lambda>k. JUndefined)"

definition get_prop :: "jsval \<Rightarrow> string \<Rightarrow> thrown + jsval" where
  "get_prop b k = (case props b of Inl e \<Rightarrow> Inl e | Inr p \<Rightarrow> Inr (p k))"

section \<open>Requests and responses\<close>

text \<open>
  A query-string value is a string, an array or a nested object (never a
  number, a boolean or \<open>null\<close>).
\<close>

datatype qval =
    QStr string
  | QArr "qval list"
  | QObj "(string \<times> qval) list"

fun qval_truthy :: "qval \<Rightarrow> bool" where
  "qval_truthy (QStr s) = (s \<noteq> [])"
| "qval_truthy (QArr xs) = True"
| "qval_truthy (QObj ps) = True"

record auth_user =
  user_id :: string

record request =
  user :: "auth_user option"
  query_search :: "qval option"
  params_id :: string
  body :: jsval

text \<open>
  The JSON sent with a status: the error envelope \<open>{ error, message }\<close> or
  one of the success envelopes \<open>{ success: true, data }\<close> (one document or
  a list) and \<open>{ success: true, message }\<close>.
\<close>

datatype 'd reply =
    Error string string
  | Data 'd
  | DataList "'d list"
  | Message string

record 'd response =
  status :: nat
  json :: "'d reply"

section \<open>The Meal model as a collaborator\<close>

text \<open>The object literal handed to \<open>Meal.create\<close>.\<close>

record new_meal =
  name :: jsval
  description :: jsval
  image' :: jsval
  calories :: jsval
  carbs :: jsval
  protein :: jsval
  fat :: jsval
  weightGrams :: jsval
  isCommon :: bool
  createdBy :: string

text \<open>The filter handed to \<open>Meal.find\<close>: \<open>{}\<close> or \<open>{ $text: { $search } }\<close>.\<close>

datatype filter = EmptyFilter | TextFilter qval

text \<open>The options handed to \<open>Meal.findByIdAndUpdate\<close>: \<open>{ new: true }\<close>.\<close>

record update_options =
  new :: bool

text \<open>
  The four operations of the \<open>Meal\<close> model the handlers call, over a
  store state \<open>'s\<close> and documents \<open>'d\<close>; \<open>Meal_find\<close> stands for
  \<open>find\<close> followed by \<open>populate\<close>, a query. Each either throws or
  returns; the three writing operations also return the next state. The
  handlers are parametrised by this record, so what is proved of them holds
  for every store.
\<close>

record ('s, 'd) meal_model =
  Meal_find :: "filter \<Rightarrow> 's \<Rightarrow> thrown + 'd list"
  Meal_create :: "new_meal \<Rightarrow> 's \<Rightarrow> (thrown + 'd) \<times> 's"
  Meal_findByIdAndUpdate ::
    "string \<Rightarrow> jsval \<Rightarrow> update_options \<Rightarrow> 's \<Rightarrow> (thrown + 'd option) \<times> 's"
  Meal_findByIdAndDelete :: "string \<Rightarrow> 's \<Rightarrow> (thrown + 'd option) \<times> 's"

text \<open>The store calls a handler makes, with their arguments, in order.\<close>

datatype call =
    Find filter
  | Create new_meal
  | FindByIdAndUpdate string jsval update_options
  | FindByIdAndDelete string

text \<open>
  One run of a handler: the responses it sent through \<open>res\<close>, in order;
  the value it threw, if it threw (for the whole handler: the rejection of
  the promise it returns); the store state it leaves; the store calls it
  made.
\<close>

record ('d, 's) run =
  sent :: "'d response list"
  escaped :: "thrown option"
  store_after :: 's
  calls :: "call list"

text \<open>\<open>return res.status(..).json(..)\<close> and a throw.\<close>

definition respond :: "'d response \<Rightarrow> 's \<Rightarrow> call list \<Rightarrow> ('d, 's) run" where
  "respond r s cs = \<lparr>sent = [r], escaped = None, store_after = s, calls = cs\<rparr>"

definition throw :: "thrown \<Rightarrow> 's \<Rightarrow> call list \<Rightarrow> ('d, 's) run" where
  "throw e s cs = \<lparr>sent = [], escaped = Some e, store_after = s, calls = cs\<rparr>"

section \<open>The handlers\<close>

text \<open>
  The catch clause of \<open>getAllMeals\<close> and \<open>deleteMeal\<close>: it does not
  bind the thrown value and sends the 500 response.
\<close>

definition catch_all :: "string \<Rightarrow> ('d, 's) run \<Rightarrow> ('d, 's) run" where
  "catch_all msg r =
     (case escaped r of
        None \<Rightarrow> r
      | Some e \<Rightarrow>
          \<lparr>sent = sent r @ [\<lparr>status = 500, json = Error ''Internal server error'' msg\<rparr>],
           escaped = None, store_after = store_after r, calls = calls r\<rparr>)"

text \<open>
  The catch clause of \<open>createMeal\<close> and \<open>updateMeal\<close>. It reads
  \<open>err.name\<close> first: on \<open>null\<close> and \<open>undefined\<close> that read throws a
  TypeError out of the handler and nothing is sent. Otherwise
  \<open>message || 'Validation error'\<close> falls back on a missing or empty
  message.
\<close>

definition on_error :: "string \<Rightarrow> string option \<Rightarrow> string option \<Rightarrow> 'd response" where
  "on_error msg n m =
     (if n = Some ''ValidationError''
      then \<lparr>status = 400,
            json = Error ''Validation error''
                     (case m of
                        None \<Rightarrow> ''Validation error''
                      | Some t \<Rightarrow> if t \<noteq> [] then t else ''Validation error'')\<rparr>
      else \<lparr>status = 500, json = Error ''Internal server error'' msg\<rparr>)"

definition catch_validation :: "string \<Rightarrow> ('d, 's) run \<Rightarrow> ('d, 's) run" where
  "catch_validation msg r =
     (case escaped r of
        None \<Rightarrow> r
      | Some Nullish \<Rightarrow>
          \<lparr>sent = sent r,
           escaped = Some (type_error ''Cannot read properties of null or undefined''),
           store_after = store_after r, calls = calls r\<rparr>
      | Some (Thrown n m) \<Rightarrow>
          \<lparr>sent = sent r @ [on_error msg n m],
           escaped = None, store_after = store_after r, calls = calls r\<rparr>)"

subsection \<open>getAllMeals\<close>

definition build_filter :: "qval option \<Rightarrow> filter" where
  "build_filter search =
     (case search of
        None \<Rightarrow> EmptyFilter
      | Some q \<Rightarrow> if qval_truthy q then TextFilter q else EmptyFilter)"

definition getAllMeals_try ::
  "('s, 'd) meal_model \<Rightarrow> request \<Rightarrow> 's \<Rightarrow> ('d, 's) run" where
  "getAllMeals_try M req s =
     (case user req of
        None \<Rightarrow>
          respond \<lparr>status = 401, json = Error ''Unauthorized'' ''User not authenticated''\<rparr> s []
      | Some u \<Rightarrow>
          (let flt = build_filter (query_search req) in
           case Meal_find M flt s of
             Inl e \<Rightarrow> throw e s [Find flt]
           | Inr meals \<Rightarrow> respond \<lparr>status = 200, json = DataList meals\<rparr> s [Find flt]))"

definition getAllMeals ::
  "('s, 'd) meal_model \<Rightarrow> request \<Rightarrow> 's \<Rightarrow> ('d, 's) run" where
  "getAllMeals M req s = catch_all ''Failed to get meals'' (getAllMeals_try M req s)"

subsection \<open>createMeal\<close>

text \<open>The message of the required-fields check, as the UTF-8 bytes of the source.\<close>

definition required_message :: string where
  "required_message =
     ''Name, calories, carbs, protein, fat v'' @ [CHR 0xC3, CHR 0xA0] @
     '' weightGrams l'' @ [CHR 0xC3, CHR 0xA0] @ '' b'' @ [CHR 0xE1, CHR 0xBA, CHR 0xAF] @
     ''t bu'' @ [CHR 0xE1, CHR 0xBB, CHR 0x99] @ ''c''"

definition negative_message :: string where
  "negative_message = ''Nutrition values/weight cannot be negative''"

definition createMeal_try ::
  "coercion \<Rightarrow> ('s, 'd) meal_model \<Rightarrow> request \<Rightarrow> 's \<Rightarrow> ('d, 's) run" where
  "createMeal_try K M req s =
     (case user req of
        None \<Rightarrow>
          respond \<lparr>status = 401, json = Error ''Unauthorized'' ''User not authenticated''\<rparr> s []
      | Some u \<Rightarrow>
          (case props (body req) of
             Inl e \<Rightarrow> throw e s []
           | Inr p \<Rightarrow>
               if \<not> truthy (p ''name'') \<or>
                  p ''calories'' = JUndefined \<or>
                  p ''carbs'' = JUndefined \<or>
                  p ''protein'' = JUndefined \<or>
                  p ''fat'' = JUndefined \<or>
                  p ''weightGrams'' = JUndefined
               then respond \<lparr>status = 400, json = Error ''Validation error'' required_message\<rparr> s []
               else
                 (case or_else (lt_zero K (p ''calories''))
                        (or_else (lt_zero K (p ''carbs''))
                          (or_else (lt_zero K (p ''protein''))
                            (or_else (lt_zero K (p ''fat''))
                              (lt_zero K (p ''weightGrams''))))) of
                    Inl e \<Rightarrow> throw e s []
                  | Inr negative \<Rightarrow>
                      if negative
                      then respond \<lparr>status = 400, json = Error ''Validation error'' negative_message\<rparr> s []
                      else
                        (let doc = \<lparr>name = p ''name'',
                                    description = p ''description'',
                                    image' = p ''image'',
                                    calories = p ''calories'',
                                    carbs = p ''carbs'',
                                    protein = p ''protein'',
                                    fat = p ''fat'',
                                    weightGrams = p ''weightGrams'',
                                    isCommon = True,
                                    createdBy = user_id u\<rparr> in
                         case Meal_create M doc s of
                           (Inl e, s') \<Rightarrow> throw e s' [Create doc]
                         | (Inr meal, s') \<Rightarrow>
                             respond \<lparr>status = 201, json = Data meal\<rparr> s' [Create doc]))))"

definition createMeal ::
  "coercion \<Rightarrow> ('s, 'd) meal_model \<Rightarrow> request \<Rightarrow> 's \<Rightarrow> ('d, 's) run" where
  "createMeal K M req s =
     catch_validation ''Failed to create meal'' (createMeal_try K M req s)"

subsection \<open>updateMeal\<close>

text \<open>One guard: \<open>v !== undefined && v < 0\<close>.\<close>

definition present_negative :: "coercion \<Rightarrow> jsval \<Rightarrow> thrown + bool" where
  "present_negative K v = and_then (Inr (v \<noteq> JUndefined)) (lt_zero K v)"

definition updateMeal_try ::
  "coercion \<Rightarrow> ('s, 'd) meal_model \<Rightarrow> request \<Rightarrow> 's \<Rightarrow> ('d, 's) run" where
  "updateMeal_try K M req s =
     (case user req of
        None \<Rightarrow>
          respond \<lparr>status = 401, json = Error ''Unauthorized'' ''User not authenticated''\<rparr> s []
      | Some u \<Rightarrow>
          (let ident = params_id req; updateData = body req in
           case props updateData of
             Inl e \<Rightarrow> throw e s []
           | Inr p \<Rightarrow>
           (case present_negative K (p ''calories'') of
              Inl e \<Rightarrow> throw e s []
            | Inr g1 \<Rightarrow>
            if g1
            then respond \<lparr>status = 400, json = Error ''Validation error'' ''Calories cannot be negative''\<rparr> s []
            else
           (case present_negative K (p ''carbs'') of
              Inl e \<Rightarrow> throw e s []
            | Inr g2 \<Rightarrow>
            if g2
            then respond \<lparr>status = 400, json = Error ''Validation error'' ''Carbs cannot be negative''\<rparr> s []
            else
           (case present_negative K (p ''protein'') of
              Inl e \<Rightarrow> throw e s []
            | Inr g3 \<Rightarrow>
            if g3
            then respond \<lparr>status = 400, json = Error ''Validation error'' ''Protein cannot be negative''\<rparr> s []
            else
           (case present_negative K (p ''fat'') of
              Inl e \<Rightarrow> throw e s []
            | Inr g4 \<Rightarrow>
            if g4
            then respond \<lparr>status = 400, json = Error ''Validation error'' ''Fat cannot be negative''\<rparr> s []
            else
           (case present_negative K (p ''weightGrams'') of
              Inl e \<Rightarrow> throw e s []
            | Inr g5 \<Rightarrow>
            if g5
            then respond \<lparr>status = 400, json = Error ''Validation error'' ''Weight cannot be negative''\<rparr> s []
            else
              (case Meal_findByIdAndUpdate M ident updateData \<lparr>new = True\<rparr> s of
                 (Inl e, s') \<Rightarrow>
                   throw e s' [FindByIdAndUpdate ident updateData \<lparr>new = True\<rparr>]
               | (Inr None, s') \<Rightarrow>
                   respond \<lparr>status = 404, json = Error ''Not found'' ''Meal not found''\<rparr> s'
                     [FindByIdAndUpdate ident updateData \<lparr>new = True\<rparr>]
               | (Inr (Some meal), s') \<Rightarrow>
                   respond \<lparr>status = 200, json = Data meal\<rparr> s'
                     [FindByIdAndUpdate ident updateData \<lparr>new = True\<rparr>]))))))))"

definition updateMeal ::
  "coercion \<Rightarrow> ('s, 'd) meal_model \<Rightarrow> request \<Rightarrow> 's \<Rightarrow> ('d, 's) run" where
  "updateMeal K M req s =
     catch_validation ''Failed to update meal'' (updateMeal_try K M req s)"

subsection \<open>deleteMeal\<close>

definition deleteMeal_try ::
  "('s, 'd) meal_model \<Rightarrow> request \<Rightarrow> 's \<Rightarrow> ('d, 's) run" where
  "deleteMeal_try M req s =
     (case user req of
        None \<Rightarrow>
          respond \<lparr>status = 401, json = Error ''Unauthorized'' ''User not authenticated''\<rparr> s []
      | Some u \<Rightarrow>
          (let ident = params_id req in
           case Meal_findByIdAndDelete M ident s of
             (Inl e, s') \<Rightarrow> throw e s' [FindByIdAndDelete ident]
           | (Inr None, s') \<Rightarrow>
               respond \<lparr>status = 404, json = Error ''Not found'' ''Meal not found''\<rparr> s'
                 [FindByIdAndDelete ident]
           | (Inr (Some meal), s') \<Rightarrow>
               respond \<lparr>status = 200, json = Message ''Meal deleted successfully''\<rparr> s'
                 [FindByIdAndDelete ident]))"

definition deleteMeal ::
  "('s, 'd) meal_model \<Rightarrow> request \<Rightarrow> 's \<Rightarrow> ('d, 's) run" where
  "deleteMeal M req s = catch_all ''Failed to delete meal'' (deleteMeal_try M req s)"

section \<open>Stores\<close>

subsection \<open>An in-memory document store\<close>

text \<open>
  Modelled from the spec: the document store behind the \<open>Meal\<close> model
  (\<open>../models\<close> and its driver are not among the sources). It holds Meal
  records and offers filtered find, create, partial update-by-identifier and
  delete-by-identifier with its own schema validation: create assigns the
  identifier, update overwrites only the fields supplied and, asked for the
  new document, returns the resulting one, delete removes the document
  permanently. The schema check and the full-text match are parameters.
\<close>

record mem =
  docs :: "(string \<times> jsval) list"
  next_id :: nat

fun decimal :: "nat \<Rightarrow> string" where
  "decimal n =
     (if n < 10 then [''0123456789'' ! n]
      else decimal (n div 10) @ [''0123456789'' ! (n mod 10)])"

declare decimal.simps [simp del]

definition document :: "string \<Rightarrow> new_meal \<Rightarrow> jsval" where
  "document i m =
     JObj [(''_id'', JStr i),
           (''name'', name m),
           (''description'', description m),
           (''image'', image' m),
           (''calories'', calories m),
           (''carbs'', carbs m),
           (''protein'', protein m),
           (''fat'', fat m),
           (''weightGrams'', weightGrams m),
           (''isCommon'', JBool (isCommon m)),
           (''createdBy'', JStr (createdBy m))]"

fun apply_update :: "jsval \<Rightarrow> jsval \<Rightarrow> jsval" where
  "apply_update (JObj d) (JObj u) = JObj (AList.merge d (AList.delete ''_id'' u))"
| "apply_update d u = d"

definition validation_error :: "string \<Rightarrow> thrown" where
  "validation_error msg = Thrown (Some ''ValidationError'') (Some msg)"

definition mem_find :: "(qval \<Rightarrow> jsval \<Rightarrow> bool) \<Rightarrow> filter \<Rightarrow> mem \<Rightarrow> thrown + jsval list" where
  "mem_find matches flt s =
     (case flt of
        EmptyFilter \<Rightarrow> Inr (map snd (docs s))
      | TextFilter q \<Rightarrow> Inr (filter (matches q) (map snd (docs s))))"

definition mem_create :: "(jsval \<Rightarrow> string option) \<Rightarrow> new_meal \<Rightarrow> mem \<Rightarrow> (thrown + jsval) \<times> mem" where
  "mem_create schema m s =
     (let i = decimal (next_id s); d = document i m in
      case schema d of
        Some msg \<Rightarrow> (Inl (validation_error msg), s)
      | None \<Rightarrow> (Inr d, \<lparr>docs = docs s @ [(i, d)], next_id = Suc (next_id s)\<rparr>))"

definition mem_update ::
  "(jsval \<Rightarrow> string option) \<Rightarrow> string \<Rightarrow> jsval \<Rightarrow> update_options \<Rightarrow> mem \<Rightarrow>
     (thrown + jsval option) \<times> mem" where
  "mem_update schema i u opts s =
     (case map_of (docs s) i of
        None \<Rightarrow> (Inr None, s)
      | Some d \<Rightarrow>
          (let d' = apply_update d u in
           case schema d' of
             Some msg \<Rightarrow> (Inl (validation_error msg), s)
           | None \<Rightarrow>
               (Inr (Some (if new opts then d' else d)),
                \<lparr>docs = AList.update i d' (docs s), next_id = next_id s\<rparr>)))"

definition mem_delete :: "string \<Rightarrow> mem \<Rightarrow> (thrown + jsval option) \<times> mem" where
  "mem_delete i s =
     (case map_of (docs s) i of
        None \<Rightarrow> (Inr None, s)
      | Some d \<Rightarrow> (Inr (Some d), \<lparr>docs = AList.delete i (docs s), next_id = next_id s\<rparr>))"

definition mem_store ::
  "(jsval \<Rightarrow> string option) \<Rightarrow> (qval \<Rightarrow> jsval \<Rightarrow> bool) \<Rightarrow> (mem, jsval) meal_model" where
  "mem_store schema matches =
     \<lparr>Meal_find = mem_find matches,
      Meal_create = mem_create schema,
      Meal_findByIdAndUpdate = mem_update schema,
      Meal_findByIdAndDelete = mem_delete\<rparr>"

text \<open>A schema that accepts every document and a match that selects none.\<close>

definition any_document :: "jsval \<Rightarrow> string option" where
  "any_document d = None"

definition no_match :: "qval \<Rightarrow> jsval \<Rightarrow> bool" where
  "no_match q d = False"

subsection \<open>A store that is down\<close>

text \<open>Every operation rejects with the given value and leaves the state alone.\<close>

definition find_fails :: "thrown \<Rightarrow> filter \<Rightarrow> 's \<Rightarrow> thrown + 'd list" where
  "find_fails e flt s = Inl e"

definition create_fails :: "thrown \<Rightarrow> new_meal \<Rightarrow> 's \<Rightarrow> (thrown + 'd) \<times> 's" where
  "create_fails e m s = (Inl e, s)"

definition update_fails ::
  "thrown \<Rightarrow> string \<Rightarrow> jsval \<Rightarrow> update_options \<Rightarrow> 's \<Rightarrow> (thrown + 'd option) \<times> 's" where
  "update_fails e i u opts s = (Inl e, s)"

definition delete_fails :: "thrown \<Rightarrow> string \<Rightarrow> 's \<Rightarrow> (thrown + 'd option) \<times> 's" where
  "delete_fails e i s = (Inl e, s)"

definition broken_store :: "thrown \<Rightarrow> ('s, 'd) meal_model" where
  "broken_store e =
     \<lparr>Meal_find = find_fails e,
      Meal_create = create_fails e,
      Meal_findByIdAndUpdate = update_fails e,
      Meal_findByIdAndDelete = delete_fails e\<rparr>"

section \<open>Example data\<close>

text \<open>
  A coercion for concrete evaluations. Strings and arrays, whose numeric
  reading is not modelled, it reads as NaN; it is applied to bodies whose
  numeric fields are numbers and objects only.
\<close>

definition unparsed :: "string \<Rightarrow> number" where
  "unparsed t = NaN"

definition unjoined :: "jsval list \<Rightarrow> number option" where
  "unjoined xs = Some NaN"

definition plain :: coercion where
  "plain = \<lparr>string_to_number = unparsed, array_to_number = unjoined\<rparr>"

definition admin :: auth_user where
  "admin = \<lparr>user_id = ''admin-1''\<rparr>"

definition empty_mem :: mem where
  "empty_mem = \<lparr>docs = [], next_id = 0\<rparr>"

text \<open>The payload of the spec's round trip, with forged ownership fields added.\<close>

definition rice_fields :: "(string \<times> jsval) list" where
  "rice_fields = [(''name'', JStr ''Rice''),
                  (''calories'', JNum (Fin 200)),
                  (''carbs'', JNum (Fin 45)),
                  (''protein'', JNum (Fin 4)),
                  (''fat'', JNum (Fin 0)),
                  (''weightGrams'', JNum (Fin 150)),
                  (''isCommon'', JBool False),
                  (''createdBy'', JStr ''someone-else'')]"

definition rice :: jsval where
  "rice = JObj rice_fields"

text \<open>
  The same meal without a name, with a negative weight, and with a negative
  weight behind calories that cannot be compared with zero.
\<close>

definition nameless :: "(string \<times> jsval) list" where
  "nameless = [(''name'', JStr []),
               (''calories'', JNum (Fin 200)),
               (''carbs'', JNum (Fin 45)),
               (''protein'', JNum (Fin 4)),
               (''fat'', JNum (Fin 0)),
               (''weightGrams'', JNum (Fin (- 150)))]"

definition weightless :: "(string \<times> jsval) list" where
  "weightless = [(''name'', JStr ''Rice''),
                 (''calories'', JNum (Fin 200)),
                 (''carbs'', JNum (Fin 45)),
                 (''protein'', JNum (Fin 4)),
                 (''fat'', JNum (Fin 0)),
                 (''weightGrams'', JNum (Fin (- 150)))]"

definition stubborn :: jsval where
  "stubborn = JObj [(''toString'', JNum (Fin 1))]"

definition stubborn_weightless :: "(string \<times> jsval) list" where
  "stubborn_weightless = [(''name'', JStr ''Rice''),
                          (''calories'', stubborn),
                          (''carbs'', JNum (Fin 45)),
                          (''protein'', JNum (Fin 4)),
                          (''fat'', JNum (Fin 0)),
                          (''weightGrams'', JNum (Fin (- 150)))]"

definition rice_doc :: new_meal where
  "rice_doc = \<lparr>name = JStr ''Rice'', description = JUndefined, image' = JUndefined,
                calories = JNum (Fin 200), carbs = JNum (Fin 45), protein = JNum (Fin 4),
                fat = JNum (Fin 0), weightGrams = JNum (Fin 150),
                isCommon = True, createdBy = ''admin-1''\<rparr>"

text \<open>A store state holding that meal under the identifier \<open>0\<close>.\<close>

definition rice_mem :: mem where
  "rice_mem = \<lparr>docs = [(''0'', document ''0'' rice_doc)], next_id = 1\<rparr>"

definition post :: "jsval \<Rightarrow> request" where
  "post b = \<lparr>user = Some admin, query_search = None, params_id = [], body = b\<rparr>"

definition put :: "string \<Rightarrow> jsval \<Rightarrow> request" where
  "put i b = \<lparr>user = Some admin, query_search = None, params_id = i, body = b\<rparr>"

definition delete_req :: "string \<Rightarrow> request" where
  "delete_req i = \<lparr>user = Some admin, query_search = None, params_id = i, body = JUndefined\<rparr>"

definition get_req :: "qval option \<Rightarrow> request" where
  "get_req q = \<lparr>user = Some admin, query_search = q, params_id = [], body = JUndefined\<rparr>"

definition anonymous :: request where
  "anonymous = \<lparr>user = None, query_search = Some (QStr ''Rice''), params_id = ''0'', body = rice\<rparr>"

text \<open>
  An unreachable database, a validation error whose message is empty, and a
  store that rejects with \<open>null\<close>.
\<close>

definition network_error :: thrown where
  "network_error = Thrown (Some ''MongoNetworkError'') (Some ''connection timed out'')"

definition silent_validation_error :: thrown where
  "silent_validation_error = Thrown (Some ''ValidationError'') (Some [])"

definition down :: "(mem, jsval) meal_model" where
  "down = broken_store network_error"

definition rejecting :: "(mem, jsval) meal_model" where
  "rejecting = broken_store silent_validation_error"


definition in_memory :: "(mem, jsval) meal_model" where
  "in_memory = mem_store any_document no_match"

text \<open>An in-memory store whose schema rejects every document.\<close>

definition reject_all :: "jsval \<Rightarrow> string option" where
  "reject_all d = Some ''Meal validation failed''"

definition strict :: "(mem, jsval) meal_model" where
  "strict = mem_store reject_all no_match"

text \<open>
  An update that tries to take the meal over, the document it leaves and the
  store state after it.
\<close>

definition takeover_fields :: "(string \<times> jsval) list" where
  "takeover_fields = [(''calories'', JNum (Fin 5)),
                      (''isCommon'', JBool False),
                      (''createdBy'', JStr ''someone-else'')]"

definition takeover :: jsval where
  "takeover = JObj takeover_fields"

definition taken_doc :: jsval where
  "taken_doc =
     document ''0'' (rice_doc\<lparr>calories := JNum (Fin 5), isCommon := False,
                               createdBy := ''someone-else''\<rparr>)"

definition taken_mem :: mem where
  "taken_mem = \<lparr>docs = [(''0'', taken_doc)], next_id = 1\<rparr>"

text \<open>
  Update bodies with one negative field, with two, and with two behind
  calories that cannot be compared with zero.
\<close>

definition negative_calories :: "(string \<times> jsval) list" where
  "negative_calories = [(''calories'', JNum (Fin (- 1)))]"

definition two_negatives :: "(string \<times> jsval) list" where
  "two_negatives = [(''calories'', JNum (Fin (- 1))), (''carbs'', JNum (Fin (- 1)))]"

definition later_negatives :: "(string \<times> jsval) list" where
  "later_negatives = [(''fat'', JNum (Fin (- 2))), (''carbs'', JNum (Fin (- 1)))]"

definition stubborn_negatives :: "(string \<times> jsval) list" where
  "stubborn_negatives =
     [(''calories'', stubborn), (''carbs'', JNum (Fin (- 1))), (''fat'', JNum (Fin (- 2)))]"

section \<open>The vocabulary of the specification\<close>

text \<open>
  The specification names five numeric fields and a fixed order in which
  they are checked, for the update each with its own message. These
  definitions follow the specification's words; the theorems compare them
  with the handlers above.
\<close>

definition numeric_fields :: "string list" where
  "numeric_fields = [''calories'', ''carbs'', ''protein'', ''fat'', ''weightGrams'']"

definition spec_update_messages :: "(string \<times> string) list" where
  "spec_update_messages =
     [(''calories'', ''Calories cannot be negative''),
      (''carbs'', ''Carbs cannot be negative''),
      (''protein'', ''Protein cannot be negative''),
      (''fat'', ''Fat cannot be negative''),
      (''weightGrams'', ''Weight cannot be negative'')]"

definition spec_message :: "string \<Rightarrow> string" where
  "spec_message f = (case map_of spec_update_messages f of None \<Rightarrow> [] | Some m \<Rightarrow> m)"

text \<open>
  Checking the fields of a list in order: the first field that is negative,
  \<open>None\<close> when every comparison is false, or what the first comparison
  that throws has thrown, if it throws before a negative field is met.
\<close>

fun spec_first_negative ::
  "coercion \<Rightarrow> (string \<Rightarrow> jsval) \<Rightarrow> string list \<Rightarrow> thrown + string option" where
  "spec_first_negative K p [] = Inr None"
| "spec_first_negative K p (f # fs) =
     (case lt_zero K (p f) of
        Inl e \<Rightarrow> Inl e
      | Inr t \<Rightarrow> if t then Inr (Some f) else spec_first_negative K p fs)"

text \<open>
  The field \<open>f\<close> is negative, and comparing each field checked before it
  with zero does not throw.
\<close>

definition spec_negative_reached :: "coercion \<Rightarrow> (string \<Rightarrow> jsval) \<Rightarrow> string \<Rightarrow> bool" where
  "spec_negative_reached K p f =
     (f \<in> set numeric_fields \<and> lt_zero K (p f) = Inr True \<and>
      list_all (\<lambda>h. case lt_zero K (p h) of Inl e \<Rightarrow> False | Inr t \<Rightarrow> True)
        (takeWhile (\<lambda>h. h \<noteq> f) numeric_fields))"

text \<open>
  A valid create payload: the name is truthy and the five numeric fields are
  defined and at least zero.
\<close>

definition spec_valid_create :: "coercion \<Rightarrow> (string \<Rightarrow> jsval) \<Rightarrow> bool" where
  "spec_valid_create K p =
     (truthy (p ''name'') \<and>
      list_all (\<lambda>f. p f \<noteq> JUndefined \<and> ge_zero K (p f)) numeric_fields)"

section \<open>Comparisons and the order of the checks\<close>

lemma lt_zero_undefined: "lt_zero K JUndefined = Inr False"
  by (simp add: lt_zero_def)

lemma lt_zero_literal_zero: "lt_zero K (JNum (Fin 0)) = Inr False"
  by (simp add: lt_zero_def)

lemma present_negative_eq: "present_negative K v = lt_zero K v"
  by (cases "v = JUndefined") (simp_all add: present_negative_def and_then_def lt_zero_undefined)

lemma to_number_throws:
  "to_number K v = Inl e \<Longrightarrow> e = type_error ''Cannot convert object to primitive value''"
  by (cases v) (auto simp: cannot_convert_def split: option.splits if_splits)

lemma lt_zero_throws:
  "lt_zero K v = Inl e \<Longrightarrow> e = type_error ''Cannot convert object to primitive value''"
  by (auto simp: lt_zero_def split: sum.splits dest: to_number_throws)

lemma ge_zero_lt_zero: "ge_zero K v \<Longrightarrow> lt_zero K v = Inr False"
proof -
  assume g: "ge_zero K v"
  then obtain n where n: "to_number K v = Inr n" and "number_ge_zero n"
    by (cases "to_number K v") (simp_all add: ge_zero_def)
  then have "\<not> number_lt_zero n" by (cases n) simp_all
  with n show ?thesis by (simp add: lt_zero_def)
qed

lemma first_negative_sound:
  "spec_first_negative K p fs = Inr (Some f) \<Longrightarrow> f \<in> set fs \<and> lt_zero K (p f) = Inr True"
  by (induction fs) (auto split: sum.splits if_splits)

lemma first_negative_None:
  "spec_first_negative K p fs = Inr None \<longleftrightarrow> list_all (\<lambda>f. lt_zero K (p f) = Inr False) fs"
  by (induction fs) (auto split: sum.splits)

lemma first_negative_throws:
  "spec_first_negative K p fs = Inl e \<Longrightarrow> e = type_error ''Cannot convert object to primitive value''"
  by (induction fs) (auto split: sum.splits if_splits dest: lt_zero_throws)

lemma first_negative_prefix:
  "list_all (\<lambda>h. lt_zero K (p h) = Inr False) front \<Longrightarrow> lt_zero K (p f) = Inr True \<Longrightarrow>
   spec_first_negative K p (front @ f # rest) = Inr (Some f)"
  by (induction front) simp_all

lemma first_negative_reached:
  "f \<in> set fs \<Longrightarrow> lt_zero K (p f) = Inr True \<Longrightarrow>
   list_all (\<lambda>h. case lt_zero K (p h) of Inl e \<Rightarrow> False | Inr t \<Rightarrow> True) (takeWhile (\<lambda>h. h \<noteq> f) fs) \<Longrightarrow>
   \<exists>g. spec_first_negative K p fs = Inr (Some g)"
  by (induction fs) (auto split: sum.splits if_splits)

lemma first_negative_exists:
  "f \<in> set fs \<Longrightarrow> lt_zero K (p f) = Inr True \<Longrightarrow> spec_first_negative K p fs \<noteq> Inr None"
proof
  assume a: "f \<in> set fs" "lt_zero K (p f) = Inr True"
    and n: "spec_first_negative K p fs = Inr None"
  from n have "\<forall>h\<in>set fs. lt_zero K (p h) = Inr False"
    by (simp add: first_negative_None list_all_iff)
  with a show False by fastforce
qed

lemma spec_message_known:
  "f \<in> set numeric_fields \<Longrightarrow> map_of spec_update_messages f = Some (spec_message f)"
  by (auto simp: numeric_fields_def spec_message_def spec_update_messages_def)

text \<open>
  The \<open>||\<close> chain of \<open>createMeal\<close> and the five guards of
  \<open>updateMeal\<close> are the check of the five fields in the specification's
  order.
\<close>

lemma create_guard:
  "or_else (lt_zero K (p ''calories''))
     (or_else (lt_zero K (p ''carbs''))
       (or_else (lt_zero K (p ''protein''))
         (or_else (lt_zero K (p ''fat''))
           (lt_zero K (p ''weightGrams''))))) =
   (case spec_first_negative K p numeric_fields of
      Inl e \<Rightarrow> Inl e
    | Inr r \<Rightarrow> Inr (r \<noteq> None))"
  by (simp add: numeric_fields_def or_else_def split: sum.splits)

lemma createMeal_try_checked:
  assumes "user req = Some u" and "props (body req) = Inr p"
  shows "createMeal_try K M req s =
           (if \<not> truthy (p ''name'') \<or> list_ex (\<lambda>f. p f = JUndefined) numeric_fields
            then respond \<lparr>status = 400, json = Error ''Validation error'' required_message\<rparr> s []
            else
              (case spec_first_negative K p numeric_fields of
                 Inl e \<Rightarrow> throw e s []
               | Inr (Some f) \<Rightarrow>
                   respond \<lparr>status = 400, json = Error ''Validation error'' negative_message\<rparr> s []
               | Inr None \<Rightarrow>
                   (case Meal_create M
                           \<lparr>name = p ''name'', description = p ''description'', image' = p ''image'',
                            calories = p ''calories'', carbs = p ''carbs'', protein = p ''protein'',
                            fat = p ''fat'', weightGrams = p ''weightGrams'',
                            isCommon = True, createdBy = user_id u\<rparr> s of
                      (Inl e, s') \<Rightarrow>
                        throw e s'
                          [Create \<lparr>name = p ''name'', description = p ''description'',
                                   image' = p ''image'', calories = p ''calories'',
                                   carbs = p ''carbs'', protein = p ''protein'',
                                   fat = p ''fat'', weightGrams = p ''weightGrams'',
                                   isCommon = True, createdBy = user_id u\<rparr>]
                    | (Inr meal, s') \<Rightarrow>
                        respond \<lparr>status = 201, json = Data meal\<rparr> s'
                          [Create \<lparr>name = p ''name'', description = p ''description'',
                                   image' = p ''image'', calories = p ''calories'',
                                   carbs = p ''carbs'', protein = p ''protein'',
                                   fat = p ''fat'', weightGrams = p ''weightGrams'',
                                   isCommon = True, createdBy = user_id u\<rparr>])))"
proof -
  have m: "(p ''calories'' = JUndefined \<or> p ''carbs'' = JUndefined \<or> p ''protein'' = JUndefined \<or>
            p ''fat'' = JUndefined \<or> p ''weightGrams'' = JUndefined) =
           list_ex (\<lambda>f. p f = JUndefined) numeric_fields"
    by (simp add: numeric_fields_def)
  show ?thesis
    unfolding createMeal_try_def create_guard
    by (simp add: assms m [symmetric] Let_def split: sum.splits option.splits)
qed

lemma updateMeal_try_checked:
  assumes "user req = Some u" and "props (body req) = Inr p"
  shows "updateMeal_try K M req s =
           (case spec_first_negative K p numeric_fields of
              Inl e \<Rightarrow> throw e s []
            | Inr (Some f) \<Rightarrow>
                respond \<lparr>status = 400, json = Error ''Validation error'' (spec_message f)\<rparr> s []
            | Inr None \<Rightarrow>
                (case Meal_findByIdAndUpdate M (params_id req) (body req) \<lparr>new = True\<rparr> s of
                   (Inl e, s') \<Rightarrow>
                     throw e s' [FindByIdAndUpdate (params_id req) (body req) \<lparr>new = True\<rparr>]
                 | (Inr None, s') \<Rightarrow>
                     respond \<lparr>status = 404, json = Error ''Not found'' ''Meal not found''\<rparr> s'
                       [FindByIdAndUpdate (params_id req) (body req) \<lparr>new = True\<rparr>]
                 | (Inr (Some meal), s') \<Rightarrow>
                     respond \<lparr>status = 200, json = Data meal\<rparr> s'
                       [FindByIdAndUpdate (params_id req) (body req) \<lparr>new = True\<rparr>]))"
  using assms
  by (simp add: updateMeal_try_def present_negative_eq numeric_fields_def spec_message_def
      spec_update_messages_def Let_def split: sum.splits)

section \<open>What each handler does, case by case\<close>

lemma respond_fields [simp]:
  "sent (respond r s cs) = [r]" "escaped (respond r s cs) = None"
  "store_after (respond r s cs) = s" "calls (respond r s cs) = cs"
  by (simp_all add: respond_def)

lemma throw_fields [simp]:
  "sent (throw e s cs) = []" "escaped (throw e s cs) = Some e"
  "store_after (throw e s cs) = s" "calls (throw e s cs) = cs"
  by (simp_all add: throw_def)

lemma props_throws: "props b = Inl e \<Longrightarrow> \<exists>m. e = type_error m"
  by (cases b) auto

lemma catch_validation_respond [simp]:
  "catch_validation msg (respond r s cs) = respond r s cs"
  by (simp add: catch_validation_def respond_def)

lemma catch_validation_type_error [simp]:
  "catch_validation msg (throw (type_error t) s cs) =
     respond \<lparr>status = 500, json = Error ''Internal server error'' msg\<rparr> s cs"
  by (simp add: catch_validation_def throw_def respond_def type_error_def on_error_def)

lemma catch_validation_thrown [simp]:
  "catch_validation msg (throw (Thrown n m) s cs) = respond (on_error msg n m) s cs"
  by (simp add: catch_validation_def throw_def respond_def)

lemma catch_validation_nullish [simp]:
  "catch_validation msg (throw Nullish s cs) =
     \<lparr>sent = [], escaped = Some (type_error ''Cannot read properties of null or undefined''),
      store_after = s, calls = cs\<rparr>"
  by (simp add: catch_validation_def throw_def)

lemma catch_all_respond [simp]: "catch_all msg (respond r s cs) = respond r s cs"
  by (simp add: catch_all_def respond_def)

lemma catch_all_throw [simp]:
  "catch_all msg (throw e s cs) =
     respond \<lparr>status = 500, json = Error ''Internal server error'' msg\<rparr> s cs"
  by (simp add: catch_all_def throw_def respond_def)

lemma createMeal_unauthenticated:
  "user req = None \<Longrightarrow>
   createMeal K M req s =
     respond \<lparr>status = 401, json = Error ''Unauthorized'' ''User not authenticated''\<rparr> s []"
  by (simp add: createMeal_def createMeal_try_def)

lemma createMeal_unreadable:
  "user req = Some u \<Longrightarrow> props (body req) = Inl e \<Longrightarrow>
   createMeal K M req s =
     respond \<lparr>status = 500, json = Error ''Internal server error'' ''Failed to create meal''\<rparr> s []"
  by (auto simp: createMeal_def createMeal_try_def dest: props_throws)

lemma createMeal_checked:
  assumes "user req = Some u" and "props (body req) = Inr p"
    and "doc = \<lparr>name = p ''name'', description = p ''description'', image' = p ''image'',
                 calories = p ''calories'', carbs = p ''carbs'', protein = p ''protein'',
                 fat = p ''fat'', weightGrams = p ''weightGrams'',
                 isCommon = True, createdBy = user_id u\<rparr>"
  shows "createMeal K M req s =
           (if \<not> truthy (p ''name'') \<or> list_ex (\<lambda>f. p f = JUndefined) numeric_fields
            then respond \<lparr>status = 400, json = Error ''Validation error'' required_message\<rparr> s []
            else
              (case spec_first_negative K p numeric_fields of
                 Inl e \<Rightarrow>
                   respond \<lparr>status = 500,
                            json = Error ''Internal server error'' ''Failed to create meal''\<rparr> s []
               | Inr (Some f) \<Rightarrow>
                   respond \<lparr>status = 400, json = Error ''Validation error'' negative_message\<rparr> s []
               | Inr None \<Rightarrow> catch_validation ''Failed to create meal''
                   (case Meal_create M doc s of
                      (Inl e, s') \<Rightarrow> throw e s' [Create doc]
                    | (Inr meal, s') \<Rightarrow> respond \<lparr>status = 201, json = Data meal\<rparr> s' [Create doc])))"
  unfolding assms(3)
  by (auto simp: createMeal_def createMeal_try_checked [OF assms(1,2)]
      split: sum.splits option.splits dest: first_negative_throws)

lemma updateMeal_unauthenticated:
  "user req = None \<Longrightarrow>
   updateMeal K M req s =
     respond \<lparr>status = 401, json = Error ''Unauthorized'' ''User not authenticated''\<rparr> s []"
  by (simp add: updateMeal_def updateMeal_try_def)

lemma updateMeal_unreadable:
  "user req = Some u \<Longrightarrow> props (body req) = Inl e \<Longrightarrow>
   updateMeal K M req s =
     respond \<lparr>status = 500, json = Error ''Internal server error'' ''Failed to update meal''\<rparr> s []"
  by (auto simp: updateMeal_def updateMeal_try_def dest: props_throws)

lemma updateMeal_checked:
  assumes "user req = Some u" and "props (body req) = Inr p"
    and "c = FindByIdAndUpdate (params_id req) (body req) \<lparr>new = True\<rparr>"
  shows "updateMeal K M req s =
           (case spec_first_negative K p numeric_fields of
              Inl e \<Rightarrow>
                respond \<lparr>status = 500,
                         json = Error ''Internal server error'' ''Failed to update meal''\<rparr> s []
            | Inr (Some f) \<Rightarrow>
                respond \<lparr>status = 400, json = Error ''Validation error'' (spec_message f)\<rparr> s []
            | Inr None \<Rightarrow> catch_validation ''Failed to update meal''
                (case Meal_findByIdAndUpdate M (params_id req) (body req) \<lparr>new = True\<rparr> s of
                   (Inl e, s') \<Rightarrow> throw e s' [c]
                 | (Inr None, s') \<Rightarrow>
                     respond \<lparr>status = 404, json = Error ''Not found'' ''Meal not found''\<rparr> s' [c]
                 | (Inr (Some meal), s') \<Rightarrow>
                     respond \<lparr>status = 200, json = Data meal\<rparr> s' [c]))"
  unfolding assms(3)
  by (auto simp: updateMeal_def updateMeal_try_checked [OF assms(1,2)]
      split: sum.splits option.splits dest: first_negative_throws)

lemma getAllMeals_unauthenticated:
  "user req = None \<Longrightarrow>
   getAllMeals M req s =
     respond \<lparr>status = 401, json = Error ''Unauthorized'' ''User not authenticated''\<rparr> s []"
  by (simp add: getAllMeals_def getAllMeals_try_def)

lemma getAllMeals_authenticated:
  assumes "user req = Some u"
  shows "getAllMeals M req s =
           (case Meal_find M (build_filter (query_search req)) s of
              Inl e \<Rightarrow>
                respond \<lparr>status = 500, json = Error ''Internal server error'' ''Failed to get meals''\<rparr>
                  s [Find (build_filter (query_search req))]
            | Inr meals \<Rightarrow>
                respond \<lparr>status = 200, json = DataList meals\<rparr>
                  s [Find (build_filter (query_search req))])"
  using assms
  by (simp add: getAllMeals_def getAllMeals_try_def Let_def split: sum.splits)

lemma deleteMeal_unauthenticated:
  "user req = None \<Longrightarrow>
   deleteMeal M req s =
     respond \<lparr>status = 401, json = Error ''Unauthorized'' ''User not authenticated''\<rparr> s []"
  by (simp add: deleteMeal_def deleteMeal_try_def)

lemma deleteMeal_authenticated:
  assumes "user req = Some u"
  shows "deleteMeal M req s =
           (case Meal_findByIdAndDelete M (params_id req) s of
              (Inl e, s') \<Rightarrow>
                respond \<lparr>status = 500, json = Error ''Internal server error'' ''Failed to delete meal''\<rparr>
                  s' [FindByIdAndDelete (params_id req)]
            | (Inr None, s') \<Rightarrow>
                respond \<lparr>status = 404, json = Error ''Not found'' ''Meal not found''\<rparr>
                  s' [FindByIdAndDelete (params_id req)]
            | (Inr (Some meal), s') \<Rightarrow>
                respond \<lparr>status = 200, json = Message ''Meal deleted successfully''\<rparr>
                  s' [FindByIdAndDelete (params_id req)])"
  using assms
  by (simp add: deleteMeal_def deleteMeal_try_def Let_def split: prod.splits sum.splits option.splits)


text \<open>One response with a status of the set, and nothing thrown.\<close>

lemma respond_answers:
  "status r \<in> S \<Longrightarrow>
   (\<exists>r'. sent (respond r s cs) = [r'] \<and> status r' \<in> S) \<and> escaped (respond r s cs) = None"
  by simp





section \<open>One response per request\<close>



section \<open>Requests without a caller identity\<close>

text \<open>
  C3. When no caller identity is attached to the request, each of the four
  handlers answers 401 with the body
  \<open>{ error: 'Unauthorized', message: 'User not authenticated' }\<close>, and that is
  its only response; it makes no store call and leaves the store state as it
  was.
\<close>

theorem unauthenticated_rejected:
  assumes "user req = None"
  shows "getAllMeals M req s =
           \<lparr>sent = [\<lparr>status = 401, json = Error ''Unauthorized'' ''User not authenticated''\<rparr>],
            escaped = None, store_after = s, calls = []\<rparr> \<and>
         createMeal K M req s =
           \<lparr>sent = [\<lparr>status = 401, json = Error ''Unauthorized'' ''User not authenticated''\<rparr>],
            escaped = None, store_after = s, calls = []\<rparr> \<and>
         updateMeal K M req s =
           \<lparr>sent = [\<lparr>status = 401, json = Error ''Unauthorized'' ''User not authenticated''\<rparr>],
            escaped = None, store_after = s, calls = []\<rparr> \<and>
         deleteMeal M req s =
           \<lparr>sent = [\<lparr>status = 401, json = Error ''Unauthorized'' ''User not authenticated''\<rparr>],
            escaped = None, store_after = s, calls = []\<rparr>"
  using assms
  by (simp add: getAllMeals_unauthenticated createMeal_unauthenticated
      updateMeal_unauthenticated deleteMeal_unauthenticated respond_def)

theorem unauthenticated_rejected_witness:
  "user anonymous = None \<and>
   getAllMeals in_memory anonymous rice_mem =
     \<lparr>sent = [\<lparr>status = 401, json = Error ''Unauthorized'' ''User not authenticated''\<rparr>],
      escaped = None, store_after = rice_mem, calls = []\<rparr> \<and>
   createMeal plain in_memory anonymous rice_mem =
     \<lparr>sent = [\<lparr>status = 401, json = Error ''Unauthorized'' ''User not authenticated''\<rparr>],
      escaped = None, store_after = rice_mem, calls = []\<rparr> \<and>
   updateMeal plain in_memory anonymous rice_mem =
     \<lparr>sent = [\<lparr>status = 401, json = Error ''Unauthorized'' ''User not authenticated''\<rparr>],
      escaped = None, store_after = rice_mem, calls = []\<rparr> \<and>
   deleteMeal in_memory anonymous rice_mem =
     \<lparr>sent = [\<lparr>status = 401, json = Error ''Unauthorized'' ''User not authenticated''\<rparr>],
      escaped = None, store_after = rice_mem, calls = []\<rparr>"
proof -
  have u: "user anonymous = None" by (simp add: anonymous_def)
  show ?thesis
    using u unauthenticated_rejected [OF u, of in_memory rice_mem plain] by simp
qed

section \<open>updateMeal: the range checks and what reaches the store\<close>

lemma updateMeal_rejects:
  assumes "user req = Some u" and "props (body req) = Inr p"
    and "spec_first_negative K p numeric_fields = Inr (Some f)"
  shows "updateMeal K M req s =
           respond \<lparr>status = 400, json = Error ''Validation error'' (spec_message f)\<rparr> s []"
  by (simp add: updateMeal_checked [OF assms(1,2) refl] assms(3))

lemma updateMeal_comparison_throws:
  assumes "user req = Some u" and "props (body req) = Inr p"
    and "spec_first_negative K p numeric_fields = Inl e"
  shows "updateMeal K M req s =
           respond \<lparr>status = 500, json = Error ''Internal server error'' ''Failed to update meal''\<rparr>
             s []"
  by (simp add: updateMeal_checked [OF assms(1,2) refl] assms(3))

lemma updateMeal_proceeds:
  assumes "user req = Some u" and "props (body req) = Inr p"
    and "spec_first_negative K p numeric_fields = Inr None"
  shows "calls (updateMeal K M req s) =
           [FindByIdAndUpdate (params_id req) (body req) \<lparr>new = True\<rparr>]"
    and "Meal_findByIdAndUpdate M (params_id req) (body req) \<lparr>new = True\<rparr> s =
           (Inr (Some d), s') \<Longrightarrow>
         updateMeal K M req s =
           respond \<lparr>status = 200, json = Data d\<rparr> s'
             [FindByIdAndUpdate (params_id req) (body req) \<lparr>new = True\<rparr>]"
    and "Meal_findByIdAndUpdate M (params_id req) (body req) \<lparr>new = True\<rparr> s =
           (Inr None, s') \<Longrightarrow>
         updateMeal K M req s =
           respond \<lparr>status = 404, json = Error ''Not found'' ''Meal not found''\<rparr> s'
             [FindByIdAndUpdate (params_id req) (body req) \<lparr>new = True\<rparr>]"
    and "Meal_findByIdAndUpdate M (params_id req) (body req) \<lparr>new = True\<rparr> s =
           (Inl (Thrown n m), s') \<Longrightarrow>
         updateMeal K M req s =
           respond (on_error ''Failed to update meal'' n m) s'
             [FindByIdAndUpdate (params_id req) (body req) \<lparr>new = True\<rparr>]"
proof -
  note c = updateMeal_checked [OF assms(1,2) refl, of K M s]
  obtain x t where x:
    "Meal_findByIdAndUpdate M (params_id req) (body req) \<lparr>new = True\<rparr> s = (x, t)"
    by (cases "Meal_findByIdAndUpdate M (params_id req) (body req) \<lparr>new = True\<rparr> s")
  show "calls (updateMeal K M req s) =
          [FindByIdAndUpdate (params_id req) (body req) \<lparr>new = True\<rparr>]"
  proof (cases x)
    case (Inl e)
    with x show ?thesis by (cases e) (simp_all add: c assms(3))
  next
    case (Inr found)
    with x show ?thesis by (cases found) (simp_all add: c assms(3))
  qed
  show "Meal_findByIdAndUpdate M (params_id req) (body req) \<lparr>new = True\<rparr> s =
           (Inr (Some d), s') \<Longrightarrow>
         updateMeal K M req s =
           respond \<lparr>status = 200, json = Data d\<rparr> s'
             [FindByIdAndUpdate (params_id req) (body req) \<lparr>new = True\<rparr>]"
    by (simp add: c assms(3))
  show "Meal_findByIdAndUpdate M (params_id req) (body req) \<lparr>new = True\<rparr> s =
           (Inr None, s') \<Longrightarrow>
         updateMeal K M req s =
           respond \<lparr>status = 404, json = Error ''Not found'' ''Meal not found''\<rparr> s'
             [FindByIdAndUpdate (params_id req) (body req) \<lparr>new = True\<rparr>]"
    by (simp add: c assms(3))
  show "Meal_findByIdAndUpdate M (params_id req) (body req) \<lparr>new = True\<rparr> s =
           (Inl (Thrown n m), s') \<Longrightarrow>
         updateMeal K M req s =
           respond (on_error ''Failed to update meal'' n m) s'
             [FindByIdAndUpdate (params_id req) (body req) \<lparr>new = True\<rparr>]"
    by (simp add: c assms(3))
qed

lemma props_put: "props (body (put i (JObj ps))) = Inr (lookup ps)"
  by (simp add: put_def)

lemma user_put: "user (put i b) = Some admin"
  by (simp add: put_def)

lemma put_fields: "params_id (put i b) = i" "body (put i b) = b"
  by (simp_all add: put_def)

text \<open>
  C2. \<open>updateMeal\<close> hands the request body to the store's
  update-by-identifier operation unmodified. For an authenticated caller and
  every body that survives the numeric range checks (its properties can be
  read and each of the five comparisons with zero is false: no field is
  negative and no comparison throws), the one store call made is
  \<open>findByIdAndUpdate\<close> with the path identifier, the body itself and
  \<open>{ new: true }\<close>, so every field of the body, \<open>isCommon\<close> and
  \<open>createdBy\<close> included, reaches the store as it came; and when the store
  finds the document, the one response is 200 with the document the store
  returned.
\<close>

theorem update_forwards_body:
  assumes "user req = Some u" and "props (body req) = Inr p"
    and "list_all (\<lambda>f. lt_zero K (p f) = Inr False) numeric_fields"
  shows "calls (updateMeal K M req s) =
           [FindByIdAndUpdate (params_id req) (body req) \<lparr>new = True\<rparr>] \<and>
         (Meal_findByIdAndUpdate M (params_id req) (body req) \<lparr>new = True\<rparr> s =
            (Inr (Some d), s') \<longrightarrow>
            sent (updateMeal K M req s) = [\<lparr>status = 200, json = Data d\<rparr>] \<and>
            escaped (updateMeal K M req s) = None \<and>
            store_after (updateMeal K M req s) = s')"
proof -
  from assms(3) have n: "spec_first_negative K p numeric_fields = Inr None"
    by (simp add: first_negative_None)
  show ?thesis
    using updateMeal_proceeds(1) [OF assms(1,2) n, of M s]
      updateMeal_proceeds(2) [OF assms(1,2) n, of M s d s']
    by simp
qed

theorem update_forwards_body_witness:
  "user (put ''0'' takeover) = Some admin \<and>
   props (body (put ''0'' takeover)) = Inr (lookup takeover_fields) \<and>
   list_all (\<lambda>f. lt_zero plain (lookup takeover_fields f) = Inr False) numeric_fields \<and>
   calls (updateMeal plain in_memory (put ''0'' takeover) rice_mem) =
     [FindByIdAndUpdate ''0'' takeover \<lparr>new = True\<rparr>] \<and>
   Meal_findByIdAndUpdate in_memory ''0'' takeover \<lparr>new = True\<rparr> rice_mem =
     (Inr (Some taken_doc), taken_mem) \<and>
   sent (updateMeal plain in_memory (put ''0'' takeover) rice_mem) =
     [\<lparr>status = 200, json = Data taken_doc\<rparr>] \<and>
   escaped (updateMeal plain in_memory (put ''0'' takeover) rice_mem) = None \<and>
   store_after (updateMeal plain in_memory (put ''0'' takeover) rice_mem) = taken_mem"
proof -
  have u: "user (put ''0'' takeover) = Some admin" by (rule user_put)
  have p: "props (body (put ''0'' takeover)) = Inr (lookup takeover_fields)"
    by (simp add: takeover_def props_put)
  have n: "list_all (\<lambda>f. lt_zero plain (lookup takeover_fields f) = Inr False) numeric_fields"
    by (simp add: numeric_fields_def lookup_def takeover_fields_def lt_zero_def)
  have f: "Meal_findByIdAndUpdate in_memory ''0'' takeover \<lparr>new = True\<rparr> rice_mem =
      (Inr (Some taken_doc), taken_mem)"
    by code_simp
  from update_forwards_body [OF u p n, of in_memory rice_mem taken_doc taken_mem] f
  have c: "calls (updateMeal plain in_memory (put ''0'' takeover) rice_mem) =
             [FindByIdAndUpdate ''0'' takeover \<lparr>new = True\<rparr>]"
    and r: "sent (updateMeal plain in_memory (put ''0'' takeover) rice_mem) =
             [\<lparr>status = 200, json = Data taken_doc\<rparr>]"
    and e: "escaped (updateMeal plain in_memory (put ''0'' takeover) rice_mem) = None"
    and t: "store_after (updateMeal plain in_memory (put ''0'' takeover) rice_mem) = taken_mem"
    by (simp_all add: put_fields)
  show ?thesis
    using u p n c f r e t by - (intro conjI; assumption)
qed

text \<open>
  Two negative fields do not always give the 400 of the first of them, and a
  body without any of the five fields does not always reach the store: with
  calories an object that cannot be converted to a primitive, the first guard
  throws before carbs and fat, both negative, are looked at, and the answer is
  500; and an absent body contains none of the five fields, yet reading
  \<open>updateData.calories\<close> throws and the answer is 500 with no store call.
\<close>

theorem update_first_negative_counterexample:
  "user (put ''0'' (JObj stubborn_negatives)) = Some admin \<and>
   lt_zero plain (lookup stubborn_negatives ''carbs'') = Inr True \<and>
   lt_zero plain (lookup stubborn_negatives ''fat'') = Inr True \<and>
   sent (updateMeal plain in_memory (put ''0'' (JObj stubborn_negatives)) rice_mem) =
     [\<lparr>status = 500, json = Error ''Internal server error'' ''Failed to update meal''\<rparr>] \<and>
   sent (updateMeal plain in_memory (put ''0'' JUndefined) rice_mem) =
     [\<lparr>status = 500, json = Error ''Internal server error'' ''Failed to update meal''\<rparr>] \<and>
   calls (updateMeal plain in_memory (put ''0'' JUndefined) rice_mem) = []"
  by code_simp

text \<open>
  C10, as amended. For an authenticated caller and an update body whose
  properties can be read (it is neither \<open>undefined\<close> nor \<open>null\<close>): when
  the body contains a negative field, or several, and comparing each field
  checked before the first negative one with zero yields false, the only
  response is the 400 with the message of that first negative field in the
  fixed order calories, carbs, protein, fat, weightGrams, and no store call
  is made; when the body contains none of the five fields (the empty object,
  for one), it passes the checks and \<open>findByIdAndUpdate\<close> is called with
  it.
\<close>

theorem update_first_negative:
  assumes "user req = Some u" and "props (body req) = Inr p"
  shows "(numeric_fields = front @ f # rest \<and>
          list_all (\<lambda>h. lt_zero K (p h) = Inr False) front \<and>
          lt_zero K (p f) = Inr True \<and>
          map_of spec_update_messages f = Some m \<longrightarrow>
            updateMeal K M req s =
              \<lparr>sent = [\<lparr>status = 400, json = Error ''Validation error'' m\<rparr>],
               escaped = None, store_after = s, calls = []\<rparr>) \<and>
         (list_all (\<lambda>g. p g = JUndefined) numeric_fields \<longrightarrow>
            calls (updateMeal K M req s) =
              [FindByIdAndUpdate (params_id req) (body req) \<lparr>new = True\<rparr>])"
proof (rule conjI; rule impI)
  assume h: "numeric_fields = front @ f # rest \<and>
          list_all (\<lambda>h. lt_zero K (p h) = Inr False) front \<and>
          lt_zero K (p f) = Inr True \<and>
          map_of spec_update_messages f = Some m"
  then have e: "numeric_fields = front @ f # rest"
    and b: "list_all (\<lambda>h. lt_zero K (p h) = Inr False) front"
    and n: "lt_zero K (p f) = Inr True"
    by simp_all
  have "spec_first_negative K p numeric_fields = Inr (Some f)"
    unfolding e using b n by (rule first_negative_prefix)
  from updateMeal_rejects [OF assms this, of M s] h
  show "updateMeal K M req s =
              \<lparr>sent = [\<lparr>status = 400, json = Error ''Validation error'' m\<rparr>],
               escaped = None, store_after = s, calls = []\<rparr>"
    by (simp add: spec_message_def respond_def)
next
  assume "list_all (\<lambda>g. p g = JUndefined) numeric_fields"
  then have "list_all (\<lambda>g. lt_zero K (p g) = Inr False) numeric_fields"
    by (simp add: list_all_iff lt_zero_undefined)
  then have "spec_first_negative K p numeric_fields = Inr None"
    by (simp add: first_negative_None)
  with assms show "calls (updateMeal K M req s) =
      [FindByIdAndUpdate (params_id req) (body req) \<lparr>new = True\<rparr>]"
    by (rule updateMeal_proceeds(1))
qed

theorem update_first_negative_witness:
  "user (put ''0'' (JObj later_negatives)) = Some admin \<and>
   props (body (put ''0'' (JObj later_negatives))) = Inr (lookup later_negatives) \<and>
   numeric_fields = [''calories''] @ ''carbs'' # [''protein'', ''fat'', ''weightGrams''] \<and>
   list_all (\<lambda>h. lt_zero plain (lookup later_negatives h) = Inr False) [''calories''] \<and>
   lt_zero plain (lookup later_negatives ''carbs'') = Inr True \<and>
   lt_zero plain (lookup later_negatives ''fat'') = Inr True \<and>
   map_of spec_update_messages ''carbs'' = Some ''Carbs cannot be negative'' \<and>
   updateMeal plain in_memory (put ''0'' (JObj later_negatives)) rice_mem =
     \<lparr>sent = [\<lparr>status = 400, json = Error ''Validation error'' ''Carbs cannot be negative''\<rparr>],
      escaped = None, store_after = rice_mem, calls = []\<rparr> \<and>
   user (put ''0'' (JObj [])) = Some admin \<and>
   props (body (put ''0'' (JObj []))) = Inr (lookup []) \<and>
   list_all (\<lambda>g. lookup [] g = JUndefined) numeric_fields \<and>
   calls (updateMeal plain in_memory (put ''0'' (JObj [])) rice_mem) =
     [FindByIdAndUpdate ''0'' (JObj []) \<lparr>new = True\<rparr>]"
proof -
  have u: "user (put ''0'' (JObj later_negatives)) = Some admin" by (rule user_put)
  have p: "props (body (put ''0'' (JObj later_negatives))) = Inr (lookup later_negatives)"
    by (rule props_put)
  have d: "numeric_fields = [''calories''] @ ''carbs'' # [''protein'', ''fat'', ''weightGrams'']"
    by (simp add: numeric_fields_def)
  have b: "list_all (\<lambda>h. lt_zero plain (lookup later_negatives h) = Inr False) [''calories'']"
    by (simp add: lookup_def later_negatives_def lt_zero_def)
  have n: "lt_zero plain (lookup later_negatives ''carbs'') = Inr True"
    and n': "lt_zero plain (lookup later_negatives ''fat'') = Inr True"
    by (simp_all add: lookup_def later_negatives_def lt_zero_def)
  have m: "map_of spec_update_messages ''carbs'' = Some ''Carbs cannot be negative''"
    by (simp add: spec_update_messages_def)
  from update_first_negative [OF u p, of "[''calories'']" "''carbs''"
      "[''protein'', ''fat'', ''weightGrams'']" plain "''Carbs cannot be negative''"
      in_memory rice_mem] d b n m
  have a: "updateMeal plain in_memory (put ''0'' (JObj later_negatives)) rice_mem =
     \<lparr>sent = [\<lparr>status = 400, json = Error ''Validation error'' ''Carbs cannot be negative''\<rparr>],
      escaped = None, store_after = rice_mem, calls = []\<rparr>"
    by blast
  have u': "user (put ''0'' (JObj [])) = Some admin" by (rule user_put)
  have p': "props (body (put ''0'' (JObj []))) = Inr (lookup [])" by (rule props_put)
  have e: "list_all (\<lambda>g. lookup [] g = JUndefined) numeric_fields"
    by (simp add: lookup_def numeric_fields_def)
  from update_first_negative [OF u' p', of _ _ _ plain _ in_memory rice_mem] e
  have c: "calls (updateMeal plain in_memory (put ''0'' (JObj [])) rice_mem) =
     [FindByIdAndUpdate ''0'' (JObj []) \<lparr>new = True\<rparr>]"
    by (simp add: put_fields)
  show ?thesis
    using u p d b n n' m a u' p' e c by - (intro conjI; assumption)
qed

text \<open>
  A negative field is not always answered with the 400 "for that field":
  with calories and carbs both \<open>-1\<close>, carbs is present and negative, yet the
  message is the one for calories; and with calories an object that cannot be
  converted to a primitive and carbs \<open>-1\<close>, the first guard throws and the
  answer is 500.
\<close>

theorem negative_update_counterexample:
  "user (put ''0'' (JObj two_negatives)) = Some admin \<and>
   get_prop (body (put ''0'' (JObj two_negatives))) ''carbs'' = Inr (JNum (Fin (- 1))) \<and>
   get_prop (body (put ''0'' (JObj stubborn_negatives))) ''carbs'' = Inr (JNum (Fin (- 1))) \<and>
   lt_zero plain (JNum (Fin (- 1))) = Inr True \<and>
   sent (updateMeal plain in_memory (put ''0'' (JObj two_negatives)) rice_mem) =
     [\<lparr>status = 400, json = Error ''Validation error'' ''Calories cannot be negative''\<rparr>] \<and>
   sent (updateMeal plain in_memory (put ''0'' (JObj stubborn_negatives)) rice_mem) =
     [\<lparr>status = 500, json = Error ''Internal server error'' ''Failed to update meal''\<rparr>]"
  by code_simp

text \<open>
  C5, as amended. For an authenticated caller and every update body, each of
  calories, carbs, protein, fat, weightGrams that is present (not
  \<open>undefined\<close>) and negative keeps the store update from being invoked
  and the store state unchanged, and \<open>updateMeal\<close> sends one response: 400
  with the field-specific message of the first negative field in the order
  calories, carbs, protein, fat, weightGrams (that field's own message when it
  is the only negative one), or 500 when the comparison of a field checked
  before any negative one throws. The answer is the 400 whenever comparing
  the fields checked before the negative field with zero does not throw. So
  \<open>{calories: -1}\<close> for an existing identifier yields 400 and leaves the
  stored Meal as it was.
\<close>

theorem negative_update_rejected:
  assumes "user req = Some u" and "props (body req) = Inr p"
    and "f \<in> set numeric_fields" and "p f \<noteq> JUndefined" and "lt_zero K (p f) = Inr True"
  shows "calls (updateMeal K M req s) = [] \<and>
         store_after (updateMeal K M req s) = s \<and>
         escaped (updateMeal K M req s) = None \<and>
         ((\<exists>g m. spec_first_negative K p numeric_fields = Inr (Some g) \<and>
                 map_of spec_update_messages g = Some m \<and>
                 sent (updateMeal K M req s) =
                   [\<lparr>status = 400, json = Error ''Validation error'' m\<rparr>] \<and>
                 (list_all (\<lambda>h. h = f \<or> lt_zero K (p h) = Inr False) numeric_fields \<longrightarrow> g = f)) \<or>
          (\<exists>e. spec_first_negative K p numeric_fields = Inl e) \<and>
            sent (updateMeal K M req s) =
              [\<lparr>status = 500, json = Error ''Internal server error'' ''Failed to update meal''\<rparr>]) \<and>
         (spec_negative_reached K p f \<longrightarrow>
            (\<exists>g m. spec_first_negative K p numeric_fields = Inr (Some g) \<and>
                   map_of spec_update_messages g = Some m \<and>
                   sent (updateMeal K M req s) =
                     [\<lparr>status = 400, json = Error ''Validation error'' m\<rparr>]))"
proof (cases "spec_first_negative K p numeric_fields")
  case (Inl e)
  note r = updateMeal_comparison_throws [OF assms(1,2) Inl, of M s]
  have "\<not> spec_negative_reached K p f"
    using first_negative_reached [of f numeric_fields K p] Inl
    by (auto simp: spec_negative_reached_def)
  with Inl show ?thesis by (simp add: r)
next
  case (Inr r)
  with first_negative_exists [of f numeric_fields K p, OF assms(3,5)] obtain g where
    g: "spec_first_negative K p numeric_fields = Inr (Some g)"
    by (cases r) auto
  note a = updateMeal_rejects [OF assms(1,2) g, of M s]
  from first_negative_sound [OF g] have gf: "g \<in> set numeric_fields"
    and gn: "lt_zero K (p g) = Inr True"
    by simp_all
  have m: "map_of spec_update_messages g = Some (spec_message g)"
    using gf by (rule spec_message_known)
  have o: "list_all (\<lambda>h. h = f \<or> lt_zero K (p h) = Inr False) numeric_fields \<longrightarrow> g = f"
    using gf gn unfolding list_all_iff by fastforce
  have x: "\<exists>g m. spec_first_negative K p numeric_fields = Inr (Some g) \<and>
                 map_of spec_update_messages g = Some m \<and>
                 sent (updateMeal K M req s) =
                   [\<lparr>status = 400, json = Error ''Validation error'' m\<rparr>] \<and>
                 (list_all (\<lambda>h. h = f \<or> lt_zero K (p h) = Inr False) numeric_fields \<longrightarrow> g = f)"
    using g m o by (intro exI [of _ g] exI [of _ "spec_message g"]) (simp add: a)
  have y: "\<exists>g m. spec_first_negative K p numeric_fields = Inr (Some g) \<and>
                   map_of spec_update_messages g = Some m \<and>
                   sent (updateMeal K M req s) =
                     [\<lparr>status = 400, json = Error ''Validation error'' m\<rparr>]"
    using g m by (intro exI [of _ g] exI [of _ "spec_message g"]) (simp add: a)
  have c: "calls (updateMeal K M req s) = []" "store_after (updateMeal K M req s) = s"
    "escaped (updateMeal K M req s) = None"
    by (simp_all add: a)
  show ?thesis
    using c x y by - (intro conjI impI disjI1; assumption)
qed

theorem negative_update_rejected_witness:
  "user (put ''0'' (JObj negative_calories)) = Some admin \<and>
   props (body (put ''0'' (JObj negative_calories))) = Inr (lookup negative_calories) \<and>
   ''calories'' \<in> set numeric_fields \<and>
   lookup negative_calories ''calories'' \<noteq> JUndefined \<and>
   lt_zero plain (lookup negative_calories ''calories'') = Inr True \<and>
   spec_negative_reached plain (lookup negative_calories) ''calories'' \<and>
   map_of (docs rice_mem) ''0'' = Some (document ''0'' rice_doc) \<and>
   updateMeal plain in_memory (put ''0'' (JObj negative_calories)) rice_mem =
     \<lparr>sent = [\<lparr>status = 400, json = Error ''Validation error'' ''Calories cannot be negative''\<rparr>],
      escaped = None, store_after = rice_mem, calls = []\<rparr>"
proof -
  let ?r = "put ''0'' (JObj negative_calories)"
  have u: "user ?r = Some admin" by (rule user_put)
  have p: "props (body ?r) = Inr (lookup negative_calories)" by (rule props_put)
  have f: "''calories'' \<in> set numeric_fields" by (simp add: numeric_fields_def)
  have q: "lookup negative_calories ''calories'' \<noteq> JUndefined"
    by (simp add: lookup_def negative_calories_def)
  have n: "lt_zero plain (lookup negative_calories ''calories'') = Inr True"
    by (simp add: lookup_def negative_calories_def lt_zero_def)
  have v: "spec_negative_reached plain (lookup negative_calories) ''calories''"
    by (simp add: spec_negative_reached_def numeric_fields_def n)
  have d: "map_of (docs rice_mem) ''0'' = Some (document ''0'' rice_doc)"
    by (simp add: rice_mem_def)
  have g: "spec_first_negative plain (lookup negative_calories) numeric_fields =
      Inr (Some ''calories'')"
    by (simp add: numeric_fields_def n)
  have m: "map_of spec_update_messages ''calories'' = Some ''Calories cannot be negative''"
    by (simp add: spec_update_messages_def)
  note w = negative_update_rejected [OF u p f q n, of in_memory rice_mem]
  from w have c: "calls (updateMeal plain in_memory ?r rice_mem) = []"
    and t: "store_after (updateMeal plain in_memory ?r rice_mem) = rice_mem"
    and e: "escaped (updateMeal plain in_memory ?r rice_mem) = None"
    by simp_all
  from w v g m have r: "sent (updateMeal plain in_memory ?r rice_mem) =
      [\<lparr>status = 400, json = Error ''Validation error'' ''Calories cannot be negative''\<rparr>]"
    by auto
  from c t e r have "updateMeal plain in_memory ?r rice_mem =
     \<lparr>sent = [\<lparr>status = 400, json = Error ''Validation error'' ''Calories cannot be negative''\<rparr>],
      escaped = None, store_after = rice_mem, calls = []\<rparr>"
    by (cases "updateMeal plain in_memory ?r rice_mem") simp
  with u p f q n v d show ?thesis by - (intro conjI; assumption)
qed

section \<open>createMeal: validation and what reaches the store\<close>

lemma catch_validation_keeps [simp]:
  "calls (catch_validation msg r) = calls r"
  "store_after (catch_validation msg r) = store_after r"
  by (auto simp: catch_validation_def split: option.splits thrown.splits)

lemma user_post: "user (post b) = Some admin"
  by (simp add: post_def)

lemma props_post: "props (body (post (JObj ps))) = Inr (lookup ps)"
  by (simp add: post_def)

lemma createMeal_proceeds:
  assumes "user req = Some u" and "props (body req) = Inr p"
    and "doc = \<lparr>name = p ''name'', description = p ''description'', image' = p ''image'',
                 calories = p ''calories'', carbs = p ''carbs'', protein = p ''protein'',
                 fat = p ''fat'', weightGrams = p ''weightGrams'',
                 isCommon = True, createdBy = user_id u\<rparr>"
    and "truthy (p ''name'')" and "list_all (\<lambda>f. p f \<noteq> JUndefined) numeric_fields"
    and "list_all (\<lambda>f. lt_zero K (p f) = Inr False) numeric_fields"
  shows "calls (createMeal K M req s) = [Create doc]"
    and "Meal_create M doc s = (Inr d, s') \<Longrightarrow>
           createMeal K M req s = respond \<lparr>status = 201, json = Data d\<rparr> s' [Create doc]"
    and "Meal_create M doc s = (Inl (Thrown n m), s') \<Longrightarrow>
           createMeal K M req s = respond (on_error ''Failed to create meal'' n m) s' [Create doc]"
proof -
  from assms(5) have a: "\<not> list_ex (\<lambda>f. p f = JUndefined) numeric_fields"
    by (simp add: list_all_iff list_ex_iff)
  from assms(6) have b: "spec_first_negative K p numeric_fields = Inr None"
    by (simp add: first_negative_None)
  note c = createMeal_checked [OF assms(1-3), of K M s]
  show "calls (createMeal K M req s) = [Create doc]"
    by (simp add: c assms(4) a b split: prod.splits sum.splits)
  show "Meal_create M doc s = (Inr d, s') \<Longrightarrow>
           createMeal K M req s = respond \<lparr>status = 201, json = Data d\<rparr> s' [Create doc]"
    by (simp add: c assms(4) a b)
  show "Meal_create M doc s = (Inl (Thrown n m), s') \<Longrightarrow>
           createMeal K M req s = respond (on_error ''Failed to create meal'' n m) s' [Create doc]"
    by (simp add: c assms(4) a b)
qed

text \<open>
  A negative field does not always give 400, nor does a missing name: with
  calories an object that cannot be converted to a primitive, the comparison
  of calories throws before the negative weight is looked at, and the answer
  is 500; and of an absent body the name is missing, yet destructuring it
  throws and the answer is 500 as well.
\<close>

theorem create_validation_counterexample:
  "user (post (JObj stubborn_weightless)) = Some admin \<and>
   truthy (lookup stubborn_weightless ''name'') \<and>
   list_all (\<lambda>f. lookup stubborn_weightless f \<noteq> JUndefined) numeric_fields \<and>
   lt_zero plain (lookup stubborn_weightless ''weightGrams'') = Inr True \<and>
   sent (createMeal plain in_memory (post (JObj stubborn_weightless)) empty_mem) =
     [\<lparr>status = 500, json = Error ''Internal server error'' ''Failed to create meal''\<rparr>] \<and>
   user (post JUndefined) = Some admin \<and>
   sent (createMeal plain in_memory (post JUndefined) empty_mem) =
     [\<lparr>status = 500, json = Error ''Internal server error'' ''Failed to create meal''\<rparr>]"
  by code_simp

text \<open>
  C4, as amended. For an authenticated caller and every create payload whose
  properties can be read (it is neither \<open>undefined\<close> nor \<open>null\<close>): when
  the name is missing or falsy, or one of calories, carbs, protein, fat,
  weightGrams is \<open>undefined\<close>, \<open>createMeal\<close> answers 400 with the
  required-fields message, whether or not a field is negative as well, since
  that check comes first; when nothing is missing and one of the five fields
  is negative, it answers 400 with the negative-values message, provided that
  comparing each field checked before that one with zero does not throw.
  Whenever a field is negative, the one response is 400 or 500, no store call
  is made and the store state is unchanged, so no Meal is persisted. A numeric
  field equal to the literal \<open>0\<close> passes the presence check, which compares
  with \<open>undefined\<close>: a payload with a truthy name whose five fields are
  each \<open>0\<close> or any other defined value that is not negative reaches
  \<open>Meal.create\<close>.
\<close>

theorem create_validation:
  assumes "user req = Some u" and "props (body req) = Inr p"
  shows "(\<not> truthy (p ''name'') \<or> list_ex (\<lambda>f. p f = JUndefined) numeric_fields \<longrightarrow>
            createMeal K M req s =
              \<lparr>sent = [\<lparr>status = 400, json = Error ''Validation error'' required_message\<rparr>],
               escaped = None, store_after = s, calls = []\<rparr>) \<and>
         (truthy (p ''name'') \<and> list_all (\<lambda>f. p f \<noteq> JUndefined) numeric_fields \<and>
          spec_negative_reached K p f \<longrightarrow>
            createMeal K M req s =
              \<lparr>sent = [\<lparr>status = 400, json = Error ''Validation error'' negative_message\<rparr>],
               escaped = None, store_after = s, calls = []\<rparr>) \<and>
         (list_ex (\<lambda>f. lt_zero K (p f) = Inr True) numeric_fields \<longrightarrow>
            (\<exists>r. sent (createMeal K M req s) = [r] \<and> status r \<in> {400, 500}) \<and>
            escaped (createMeal K M req s) = None \<and>
            store_after (createMeal K M req s) = s \<and>
            calls (createMeal K M req s) = []) \<and>
         (truthy (p ''name'') \<and>
          list_all (\<lambda>f. p f = JNum (Fin 0) \<or> p f \<noteq> JUndefined \<and> lt_zero K (p f) = Inr False)
            numeric_fields \<longrightarrow>
            calls (createMeal K M req s) =
              [Create \<lparr>name = p ''name'', description = p ''description'', image' = p ''image'',
                       calories = p ''calories'', carbs = p ''carbs'', protein = p ''protein'',
                       fat = p ''fat'', weightGrams = p ''weightGrams'',
                       isCommon = True, createdBy = user_id u\<rparr>])"
proof -
  note c = createMeal_checked [OF assms refl, of K M s]
  have a: "\<not> truthy (p ''name'') \<or> list_ex (\<lambda>f. p f = JUndefined) numeric_fields \<longrightarrow>
            createMeal K M req s =
              \<lparr>sent = [\<lparr>status = 400, json = Error ''Validation error'' required_message\<rparr>],
               escaped = None, store_after = s, calls = []\<rparr>"
    by (simp add: c respond_def)
  have b: "truthy (p ''name'') \<and> list_all (\<lambda>f. p f \<noteq> JUndefined) numeric_fields \<and>
          spec_negative_reached K p f \<longrightarrow>
            createMeal K M req s =
              \<lparr>sent = [\<lparr>status = 400, json = Error ''Validation error'' negative_message\<rparr>],
               escaped = None, store_after = s, calls = []\<rparr>"
  proof
    assume h: "truthy (p ''name'') \<and> list_all (\<lambda>f. p f \<noteq> JUndefined) numeric_fields \<and>
          spec_negative_reached K p f"
    then have n: "\<not> list_ex (\<lambda>f. p f = JUndefined) numeric_fields"
      by (simp add: list_all_iff list_ex_iff)
    from h obtain g where "spec_first_negative K p numeric_fields = Inr (Some g)"
      using first_negative_reached [of f numeric_fields K p]
      by (auto simp: spec_negative_reached_def)
    with h n show "createMeal K M req s =
              \<lparr>sent = [\<lparr>status = 400, json = Error ''Validation error'' negative_message\<rparr>],
               escaped = None, store_after = s, calls = []\<rparr>"
      by (simp add: c respond_def)
  qed
  have d: "list_ex (\<lambda>f. lt_zero K (p f) = Inr True) numeric_fields \<longrightarrow>
            (\<exists>r. sent (createMeal K M req s) = [r] \<and> status r \<in> {400, 500}) \<and>
            escaped (createMeal K M req s) = None \<and>
            store_after (createMeal K M req s) = s \<and>
            calls (createMeal K M req s) = []"
  proof
    assume "list_ex (\<lambda>f. lt_zero K (p f) = Inr True) numeric_fields"
    then obtain g where g: "g \<in> set numeric_fields" "lt_zero K (p g) = Inr True"
      by (auto simp: list_ex_iff)
    have x: "spec_first_negative K p numeric_fields \<noteq> Inr None"
      using g by (rule first_negative_exists [of g numeric_fields K p])
    show "(\<exists>r. sent (createMeal K M req s) = [r] \<and> status r \<in> {400, 500}) \<and>
            escaped (createMeal K M req s) = None \<and>
            store_after (createMeal K M req s) = s \<and>
            calls (createMeal K M req s) = []"
    proof (cases "\<not> truthy (p ''name'') \<or> list_ex (\<lambda>f. p f = JUndefined) numeric_fields")
      case True
      then show ?thesis by (simp add: c)
    next
      case False
      show ?thesis
      proof (cases "spec_first_negative K p numeric_fields")
        case (Inl e)
        with False show ?thesis by (simp add: c)
      next
        case (Inr r)
        with x obtain h where "r = Some h" by (cases r) auto
        with False Inr show ?thesis by (simp add: c)
      qed
    qed
  qed
  have e: "truthy (p ''name'') \<and>
          list_all (\<lambda>f. p f = JNum (Fin 0) \<or> p f \<noteq> JUndefined \<and> lt_zero K (p f) = Inr False)
            numeric_fields \<longrightarrow>
            calls (createMeal K M req s) =
              [Create \<lparr>name = p ''name'', description = p ''description'', image' = p ''image'',
                       calories = p ''calories'', carbs = p ''carbs'', protein = p ''protein'',
                       fat = p ''fat'', weightGrams = p ''weightGrams'',
                       isCommon = True, createdBy = user_id u\<rparr>]"
  proof
    assume h: "truthy (p ''name'') \<and>
          list_all (\<lambda>f. p f = JNum (Fin 0) \<or> p f \<noteq> JUndefined \<and> lt_zero K (p f) = Inr False)
            numeric_fields"
    then have v: "\<forall>f\<in>set numeric_fields. p f \<noteq> JUndefined \<and> lt_zero K (p f) = Inr False"
      using lt_zero_literal_zero [of K] unfolding list_all_iff by fastforce
    then have "list_all (\<lambda>f. p f \<noteq> JUndefined) numeric_fields"
      and "list_all (\<lambda>f. lt_zero K (p f) = Inr False) numeric_fields"
      unfolding list_all_iff by blast+
    with h show "calls (createMeal K M req s) =
              [Create \<lparr>name = p ''name'', description = p ''description'', image' = p ''image'',
                       calories = p ''calories'', carbs = p ''carbs'', protein = p ''protein'',
                       fat = p ''fat'', weightGrams = p ''weightGrams'',
                       isCommon = True, createdBy = user_id u\<rparr>]"
      using createMeal_proceeds(1) [OF assms refl, of K M s] by blast
  qed
  show ?thesis by (rule conjI [OF a conjI [OF b conjI [OF d e]]])
qed

theorem create_validation_witness:
  "user (post (JObj nameless)) = Some admin \<and>
   props (body (post (JObj nameless))) = Inr (lookup nameless) \<and>
   \<not> truthy (lookup nameless ''name'') \<and>
   list_ex (\<lambda>f. lt_zero plain (lookup nameless f) = Inr True) numeric_fields \<and>
   createMeal plain in_memory (post (JObj nameless)) empty_mem =
     \<lparr>sent = [\<lparr>status = 400, json = Error ''Validation error'' required_message\<rparr>],
      escaped = None, store_after = empty_mem, calls = []\<rparr> \<and>
   user (post (JObj weightless)) = Some admin \<and>
   props (body (post (JObj weightless))) = Inr (lookup weightless) \<and>
   truthy (lookup weightless ''name'') \<and>
   list_all (\<lambda>f. lookup weightless f \<noteq> JUndefined) numeric_fields \<and>
   spec_negative_reached plain (lookup weightless) ''weightGrams'' \<and>
   list_ex (\<lambda>f. lt_zero plain (lookup weightless f) = Inr True) numeric_fields \<and>
   createMeal plain in_memory (post (JObj weightless)) empty_mem =
     \<lparr>sent = [\<lparr>status = 400, json = Error ''Validation error'' negative_message\<rparr>],
      escaped = None, store_after = empty_mem, calls = []\<rparr> \<and>
   user (post rice) = Some admin \<and>
   props (body (post rice)) = Inr (lookup rice_fields) \<and>
   truthy (lookup rice_fields ''name'') \<and>
   lookup rice_fields ''fat'' = JNum (Fin 0) \<and>
   calls (createMeal plain in_memory (post rice) empty_mem) = [Create rice_doc]"
proof -
  have u1: "user (post (JObj nameless)) = Some admin" by (rule user_post)
  have p1: "props (body (post (JObj nameless))) = Inr (lookup nameless)" by (rule props_post)
  have n1: "\<not> truthy (lookup nameless ''name'')"
    by (simp add: lookup_def nameless_def)
  have m1: "list_ex (\<lambda>f. lt_zero plain (lookup nameless f) = Inr True) numeric_fields"
    by (simp add: lookup_def nameless_def numeric_fields_def lt_zero_def)
  from create_validation [OF u1 p1, where K = plain and M = in_memory and s = empty_mem] n1
  have r1: "createMeal plain in_memory (post (JObj nameless)) empty_mem =
     \<lparr>sent = [\<lparr>status = 400, json = Error ''Validation error'' required_message\<rparr>],
      escaped = None, store_after = empty_mem, calls = []\<rparr>"
    by blast
  have u2: "user (post (JObj weightless)) = Some admin" by (rule user_post)
  have p2: "props (body (post (JObj weightless))) = Inr (lookup weightless)" by (rule props_post)
  have n2: "truthy (lookup weightless ''name'')"
    by (simp add: lookup_def weightless_def)
  have d2: "list_all (\<lambda>f. lookup weightless f \<noteq> JUndefined) numeric_fields"
    by (simp add: lookup_def weightless_def numeric_fields_def)
  have v2: "spec_negative_reached plain (lookup weightless) ''weightGrams''"
    by (simp add: spec_negative_reached_def lookup_def weightless_def numeric_fields_def lt_zero_def)
  have m2: "list_ex (\<lambda>f. lt_zero plain (lookup weightless f) = Inr True) numeric_fields"
    by (simp add: lookup_def weightless_def numeric_fields_def lt_zero_def)
  from create_validation [OF u2 p2, where K = plain and M = in_memory and s = empty_mem
      and f = "''weightGrams''"] n2 d2 v2
  have r2: "createMeal plain in_memory (post (JObj weightless)) empty_mem =
     \<lparr>sent = [\<lparr>status = 400, json = Error ''Validation error'' negative_message\<rparr>],
      escaped = None, store_after = empty_mem, calls = []\<rparr>"
    by blast
  have u3: "user (post rice) = Some admin" by (rule user_post)
  have p3: "props (body (post rice)) = Inr (lookup rice_fields)"
    by (simp add: rice_def props_post)
  have z3: "lookup rice_fields ''fat'' = JNum (Fin 0)"
    by (simp add: lookup_def rice_fields_def)
  have n3: "truthy (lookup rice_fields ''name'')"
    by (simp add: lookup_def rice_fields_def)
  have v3: "list_all (\<lambda>f. lookup rice_fields f = JNum (Fin 0) \<or>
              lookup rice_fields f \<noteq> JUndefined \<and> lt_zero plain (lookup rice_fields f) = Inr False)
            numeric_fields"
    by (simp add: lookup_def rice_fields_def numeric_fields_def lt_zero_def)
  from create_validation [OF u3 p3, where K = plain and M = in_memory and s = empty_mem] n3 v3
  have "calls (createMeal plain in_memory (post rice) empty_mem) =
          [Create \<lparr>name = lookup rice_fields ''name'', description = lookup rice_fields ''description'',
                   image' = lookup rice_fields ''image'', calories = lookup rice_fields ''calories'',
                   carbs = lookup rice_fields ''carbs'', protein = lookup rice_fields ''protein'',
                   fat = lookup rice_fields ''fat'', weightGrams = lookup rice_fields ''weightGrams'',
                   isCommon = True, createdBy = user_id admin\<rparr>]"
    by blast
  then have r3: "calls (createMeal plain in_memory (post rice) empty_mem) = [Create rice_doc]"
    by (simp add: lookup_def rice_fields_def rice_doc_def admin_def)
  show ?thesis
    using u1 p1 n1 m1 r1 u2 p2 n2 d2 v2 m2 r2 u3 p3 n3 z3 r3 by - (intro conjI; assumption)
qed

text \<open>
  A valid payload does not make the status 201 by itself: when the store's
  create throws, here because the database cannot be reached, the handler
  answers 500.
\<close>

theorem create_status_counterexample:
  "user (post rice) = Some admin \<and>
   props (body (post rice)) = Inr (lookup rice_fields) \<and>
   spec_valid_create plain (lookup rice_fields) \<and>
   sent (createMeal plain down (post rice) empty_mem) =
     [\<lparr>status = 500, json = Error ''Internal server error'' ''Failed to create meal''\<rparr>]"
proof -
  have u: "user (post rice) = Some admin" by (rule user_post)
  have p: "props (body (post rice)) = Inr (lookup rice_fields)"
    by (simp add: rice_def props_post)
  have v: "spec_valid_create plain (lookup rice_fields)"
    by (simp add: spec_valid_create_def lookup_def rice_fields_def numeric_fields_def ge_zero_def)
  have s: "sent (createMeal plain down (post rice) empty_mem) =
     [\<lparr>status = 500, json = Error ''Internal server error'' ''Failed to create meal''\<rparr>]"
    by code_simp
  from u p v s show ?thesis by - (intro conjI; assumption)
qed

text \<open>
  C1, as amended. For an authenticated caller and every valid create payload
  (name truthy, the five numeric fields defined and at least zero),
  \<open>createMeal\<close> makes one store call, \<open>Meal.create\<close>, and the Meal it
  passes has \<open>isCommon = true\<close> and \<open>createdBy\<close> equal to the caller's
  identifier, whatever \<open>isCommon\<close> or \<open>createdBy\<close> the request body
  carries; the handler returns status 201 with the created document whenever
  that store call returns one.
\<close>

theorem create_stamps_owner:
  assumes "user req = Some u" and "props (body req) = Inr p"
    and "spec_valid_create K p"
  shows "calls (createMeal K M req s) =
           [Create \<lparr>name = p ''name'', description = p ''description'', image' = p ''image'',
                    calories = p ''calories'', carbs = p ''carbs'', protein = p ''protein'',
                    fat = p ''fat'', weightGrams = p ''weightGrams'',
                    isCommon = True, createdBy = user_id u\<rparr>] \<and>
         (Meal_create M
            \<lparr>name = p ''name'', description = p ''description'', image' = p ''image'',
             calories = p ''calories'', carbs = p ''carbs'', protein = p ''protein'',
             fat = p ''fat'', weightGrams = p ''weightGrams'',
             isCommon = True, createdBy = user_id u\<rparr> s = (Inr d, s') \<longrightarrow>
            sent (createMeal K M req s) = [\<lparr>status = 201, json = Data d\<rparr>] \<and>
            escaped (createMeal K M req s) = None \<and>
            store_after (createMeal K M req s) = s')"
proof -
  from assms(3) have n: "truthy (p ''name'')"
    and v: "list_all (\<lambda>f. p f \<noteq> JUndefined) numeric_fields"
    and z: "list_all (\<lambda>f. lt_zero K (p f) = Inr False) numeric_fields"
    unfolding spec_valid_create_def list_all_iff by (auto dest: ge_zero_lt_zero)
  show ?thesis
    using createMeal_proceeds(1) [OF assms(1,2) refl n v z, of M s]
      createMeal_proceeds(2) [OF assms(1,2) refl n v z, of M s d s']
    by simp
qed

theorem create_stamps_owner_witness:
  "user (post rice) = Some admin \<and>
   props (body (post rice)) = Inr (lookup rice_fields) \<and>
   spec_valid_create plain (lookup rice_fields) \<and>
   lookup rice_fields ''isCommon'' = JBool False \<and>
   lookup rice_fields ''createdBy'' = JStr ''someone-else'' \<and>
   calls (createMeal plain in_memory (post rice) empty_mem) = [Create rice_doc] \<and>
   isCommon rice_doc = True \<and>
   createdBy rice_doc = user_id admin \<and>
   Meal_create in_memory rice_doc empty_mem = (Inr (document ''0'' rice_doc), rice_mem) \<and>
   sent (createMeal plain in_memory (post rice) empty_mem) =
     [\<lparr>status = 201, json = Data (document ''0'' rice_doc)\<rparr>] \<and>
   escaped (createMeal plain in_memory (post rice) empty_mem) = None \<and>
   store_after (createMeal plain in_memory (post rice) empty_mem) = rice_mem"
proof -
  have u: "user (post rice) = Some admin" by (rule user_post)
  have p: "props (body (post rice)) = Inr (lookup rice_fields)"
    by (simp add: rice_def props_post)
  have v: "spec_valid_create plain (lookup rice_fields)"
    by (simp add: spec_valid_create_def lookup_def rice_fields_def numeric_fields_def ge_zero_def)
  have i: "lookup rice_fields ''isCommon'' = JBool False"
    and o: "lookup rice_fields ''createdBy'' = JStr ''someone-else''"
    by (simp_all add: lookup_def rice_fields_def)
  have e: "\<lparr>name = lookup rice_fields ''name'', description = lookup rice_fields ''description'',
            image' = lookup rice_fields ''image'', calories = lookup rice_fields ''calories'',
            carbs = lookup rice_fields ''carbs'', protein = lookup rice_fields ''protein'',
            fat = lookup rice_fields ''fat'', weightGrams = lookup rice_fields ''weightGrams'',
            isCommon = True, createdBy = user_id admin\<rparr> = rice_doc"
    by (simp add: lookup_def rice_fields_def rice_doc_def admin_def)
  have c: "isCommon rice_doc = True" and b: "createdBy rice_doc = user_id admin"
    by (simp_all add: rice_doc_def admin_def)
  have m: "Meal_create in_memory rice_doc empty_mem = (Inr (document ''0'' rice_doc), rice_mem)"
    by code_simp
  from create_stamps_owner [OF u p v, of in_memory empty_mem "document ''0'' rice_doc" rice_mem] m
  have k: "calls (createMeal plain in_memory (post rice) empty_mem) = [Create rice_doc]"
    and r: "sent (createMeal plain in_memory (post rice) empty_mem) =
              [\<lparr>status = 201, json = Data (document ''0'' rice_doc)\<rparr>]"
    and x: "escaped (createMeal plain in_memory (post rice) empty_mem) = None"
    and t: "store_after (createMeal plain in_memory (post rice) empty_mem) = rice_mem"
    unfolding e by simp_all
  show ?thesis
    using u p v i o k c b m r x t by - (intro conjI; assumption)
qed

section \<open>getAllMeals: the filter and the listing\<close>

text \<open>
  C7. For every list request with an authenticated caller: when the
  \<open>search\<close> query parameter is provided and not the empty string,
  \<open>getAllMeals\<close> queries the store with the full-text filter built from
  it; when it is absent or empty, with the empty filter. That query is the
  only store call and the store state is left as it was. Whenever the query
  returns, be it with an empty list, the one response is 200 with
  \<open>{ success: true, data: meals }\<close>.
\<close>

theorem list_meals:
  assumes "user req = Some u"
  shows "(query_search req = Some q \<and> q \<noteq> QStr [] \<longrightarrow>
            calls (getAllMeals M req s) = [Find (TextFilter q)]) \<and>
         (query_search req = None \<or> query_search req = Some (QStr []) \<longrightarrow>
            calls (getAllMeals M req s) = [Find EmptyFilter]) \<and>
         store_after (getAllMeals M req s) = s \<and>
         (calls (getAllMeals M req s) = [Find flt] \<and> Meal_find M flt s = Inr meals \<longrightarrow>
            sent (getAllMeals M req s) = [\<lparr>status = 200, json = DataList meals\<rparr>] \<and>
            escaped (getAllMeals M req s) = None)"
proof -
  note g = getAllMeals_authenticated [OF assms, of M s]
  have k: "calls (getAllMeals M req s) = [Find (build_filter (query_search req))]"
    and c: "store_after (getAllMeals M req s) = s"
    by (simp_all add: g split: sum.splits)
  have a: "query_search req = Some q \<and> q \<noteq> QStr [] \<longrightarrow>
            calls (getAllMeals M req s) = [Find (TextFilter q)]"
    by (cases q) (simp_all add: k build_filter_def)
  have b: "query_search req = None \<or> query_search req = Some (QStr []) \<longrightarrow>
            calls (getAllMeals M req s) = [Find EmptyFilter]"
    by (auto simp: k build_filter_def)
  have d: "calls (getAllMeals M req s) = [Find flt] \<and> Meal_find M flt s = Inr meals \<longrightarrow>
            sent (getAllMeals M req s) = [\<lparr>status = 200, json = DataList meals\<rparr>] \<and>
            escaped (getAllMeals M req s) = None"
  proof
    assume h: "calls (getAllMeals M req s) = [Find flt] \<and> Meal_find M flt s = Inr meals"
    with k have "flt = build_filter (query_search req)" by simp
    with h show "sent (getAllMeals M req s) = [\<lparr>status = 200, json = DataList meals\<rparr>] \<and>
            escaped (getAllMeals M req s) = None"
      by (simp add: g)
  qed
  show ?thesis by (rule conjI [OF a conjI [OF b conjI [OF c d]]])
qed

theorem list_meals_witness:
  "user (get_req (Some (QStr ''Rice''))) = Some admin \<and>
   query_search (get_req (Some (QStr ''Rice''))) = Some (QStr ''Rice'') \<and>
   QStr ''Rice'' \<noteq> QStr [] \<and>
   calls (getAllMeals in_memory (get_req (Some (QStr ''Rice''))) rice_mem) =
     [Find (TextFilter (QStr ''Rice''))] \<and>
   Meal_find in_memory (TextFilter (QStr ''Rice'')) rice_mem = Inr [] \<and>
   sent (getAllMeals in_memory (get_req (Some (QStr ''Rice''))) rice_mem) =
     [\<lparr>status = 200, json = DataList []\<rparr>] \<and>
   store_after (getAllMeals in_memory (get_req (Some (QStr ''Rice''))) rice_mem) = rice_mem \<and>
   user (get_req None) = Some admin \<and>
   query_search (get_req None) = None \<and>
   calls (getAllMeals in_memory (get_req None) rice_mem) = [Find EmptyFilter] \<and>
   Meal_find in_memory EmptyFilter rice_mem = Inr [document ''0'' rice_doc] \<and>
   sent (getAllMeals in_memory (get_req None) rice_mem) =
     [\<lparr>status = 200, json = DataList [document ''0'' rice_doc]\<rparr>]"
proof -
  let ?r = "get_req (Some (QStr ''Rice''))"
  have u1: "user ?r = Some admin" and q1: "query_search ?r = Some (QStr ''Rice'')"
    by (simp_all add: get_req_def)
  have n1: "QStr ''Rice'' \<noteq> QStr []" by simp
  have f1: "Meal_find in_memory (TextFilter (QStr ''Rice'')) rice_mem = Inr []"
    by (simp add: in_memory_def mem_store_def mem_find_def no_match_def)
  note w1 = list_meals [OF u1, of "QStr ''Rice''" in_memory rice_mem "TextFilter (QStr ''Rice'')" "[]"]
  from w1 q1 n1 have c1: "calls (getAllMeals in_memory ?r rice_mem) = [Find (TextFilter (QStr ''Rice''))]"
    by blast
  from w1 c1 f1 have r1: "sent (getAllMeals in_memory ?r rice_mem) = [\<lparr>status = 200, json = DataList []\<rparr>]"
    by blast
  from w1 have s1: "store_after (getAllMeals in_memory ?r rice_mem) = rice_mem"
    by blast
  have u2: "user (get_req None) = Some admin" and q2: "query_search (get_req None) = None"
    by (simp_all add: get_req_def)
  have f2: "Meal_find in_memory EmptyFilter rice_mem = Inr [document ''0'' rice_doc]"
    by (simp add: in_memory_def mem_store_def mem_find_def rice_mem_def)
  note w2 = list_meals [OF u2, of _ in_memory rice_mem EmptyFilter "[document ''0'' rice_doc]"]
  from w2 q2 have c2: "calls (getAllMeals in_memory (get_req None) rice_mem) = [Find EmptyFilter]"
    by blast
  from w2 c2 f2 have r2: "sent (getAllMeals in_memory (get_req None) rice_mem) =
      [\<lparr>status = 200, json = DataList [document ''0'' rice_doc]\<rparr>]"
    by blast
  show ?thesis
    using u1 q1 n1 c1 f1 r1 s1 u2 q2 c2 f2 r2 by - (intro conjI; assumption)
qed

section \<open>Identifiers that do not resolve\<close>

lemma mem_delete_found:
  assumes "map_of (docs t) i = Some d"
  shows "Meal_findByIdAndDelete (mem_store V T) i t =
           (Inr (Some d), \<lparr>docs = AList.delete i (docs t), next_id = next_id t\<rparr>)"
  using assms by (simp add: mem_store_def mem_delete_def)

lemma mem_delete_missing:
  assumes "map_of (docs t) i = None"
  shows "Meal_findByIdAndDelete (mem_store V T) i t = (Inr None, t)"
  using assms by (simp add: mem_store_def mem_delete_def)

text \<open>
  An unknown identifier does not make \<open>updateMeal\<close> answer 404 by itself:
  the range checks come before the lookup, so a negative field is answered
  with 400 although no Meal has the identifier.
\<close>

theorem not_found_counterexample:
  "user (put ''7'' (JObj negative_calories)) = Some admin \<and>
   map_of (docs rice_mem) ''7'' = None \<and>
   Meal_findByIdAndUpdate in_memory ''7'' (JObj negative_calories) \<lparr>new = True\<rparr> rice_mem =
     (Inr None, rice_mem) \<and>
   sent (updateMeal plain in_memory (put ''7'' (JObj negative_calories)) rice_mem) =
     [\<lparr>status = 400, json = Error ''Validation error'' ''Calories cannot be negative''\<rparr>]"
  by code_simp

text \<open>
  C6, as amended. For an authenticated caller: when the store's
  delete-by-identifier finds no Meal for the path identifier,
  \<open>deleteMeal\<close> answers 404 with
  \<open>{ error: 'Not found', message: 'Meal not found' }\<close>, and when it
  finds one, 200 with \<open>'Meal deleted successfully'\<close>, leaving the
  state the store returned; when the store's update-by-identifier finds no
  Meal, \<open>updateMeal\<close> answers 404 with the same body for every body
  that passes its numeric range checks (its properties can be read and each
  of the five comparisons with zero is false). Over the in-memory store,
  deleting an existing identifier twice answers 200 the first time, which
  removes the document, and 404 the second time.
\<close>

theorem not_found_responses:
  assumes "user req = Some u"
  shows "(Meal_findByIdAndDelete M (params_id req) s = (Inr None, s') \<longrightarrow>
            sent (deleteMeal M req s) =
              [\<lparr>status = 404, json = Error ''Not found'' ''Meal not found''\<rparr>]) \<and>
         (Meal_findByIdAndDelete M (params_id req) s = (Inr (Some m), s') \<longrightarrow>
            sent (deleteMeal M req s) =
              [\<lparr>status = 200, json = Message ''Meal deleted successfully''\<rparr>] \<and>
            store_after (deleteMeal M req s) = s') \<and>
         (props (body req) = Inr p \<and>
          list_all (\<lambda>f. lt_zero K (p f) = Inr False) numeric_fields \<and>
          Meal_findByIdAndUpdate M (params_id req) (body req) \<lparr>new = True\<rparr> s = (Inr None, s') \<longrightarrow>
            sent (updateMeal K M req s) =
              [\<lparr>status = 404, json = Error ''Not found'' ''Meal not found''\<rparr>]) \<and>
         (map_of (docs t) (params_id req) = Some d \<longrightarrow>
            sent (deleteMeal (mem_store V T) req t) =
              [\<lparr>status = 200, json = Message ''Meal deleted successfully''\<rparr>] \<and>
            map_of (docs (store_after (deleteMeal (mem_store V T) req t))) (params_id req) = None \<and>
            sent (deleteMeal (mem_store V T) req (store_after (deleteMeal (mem_store V T) req t))) =
              [\<lparr>status = 404, json = Error ''Not found'' ''Meal not found''\<rparr>])"
proof -
  have a: "Meal_findByIdAndDelete M (params_id req) s = (Inr None, s') \<longrightarrow>
            sent (deleteMeal M req s) =
              [\<lparr>status = 404, json = Error ''Not found'' ''Meal not found''\<rparr>]"
    by (simp add: deleteMeal_authenticated [OF assms])
  have a': "Meal_findByIdAndDelete M (params_id req) s = (Inr (Some m), s') \<longrightarrow>
            sent (deleteMeal M req s) =
              [\<lparr>status = 200, json = Message ''Meal deleted successfully''\<rparr>] \<and>
            store_after (deleteMeal M req s) = s'"
    by (simp add: deleteMeal_authenticated [OF assms])
  have b: "props (body req) = Inr p \<and>
          list_all (\<lambda>f. lt_zero K (p f) = Inr False) numeric_fields \<and>
          Meal_findByIdAndUpdate M (params_id req) (body req) \<lparr>new = True\<rparr> s = (Inr None, s') \<longrightarrow>
            sent (updateMeal K M req s) =
              [\<lparr>status = 404, json = Error ''Not found'' ''Meal not found''\<rparr>]"
  proof
    assume h: "props (body req) = Inr p \<and>
          list_all (\<lambda>f. lt_zero K (p f) = Inr False) numeric_fields \<and>
          Meal_findByIdAndUpdate M (params_id req) (body req) \<lparr>new = True\<rparr> s = (Inr None, s')"
    then have n: "spec_first_negative K p numeric_fields = Inr None"
      by (simp add: first_negative_None)
    from h have p: "props (body req) = Inr p" by simp
    from h updateMeal_proceeds(3) [OF assms p n, of M s s']
    show "sent (updateMeal K M req s) =
              [\<lparr>status = 404, json = Error ''Not found'' ''Meal not found''\<rparr>]"
      by simp
  qed
  have c: "map_of (docs t) (params_id req) = Some d \<longrightarrow>
            sent (deleteMeal (mem_store V T) req t) =
              [\<lparr>status = 200, json = Message ''Meal deleted successfully''\<rparr>] \<and>
            map_of (docs (store_after (deleteMeal (mem_store V T) req t))) (params_id req) = None \<and>
            sent (deleteMeal (mem_store V T) req (store_after (deleteMeal (mem_store V T) req t))) =
              [\<lparr>status = 404, json = Error ''Not found'' ''Meal not found''\<rparr>]"
  proof
    assume f: "map_of (docs t) (params_id req) = Some d"
    let ?t' = "\<lparr>docs = AList.delete (params_id req) (docs t), next_id = next_id t\<rparr>"
    have first: "deleteMeal (mem_store V T) req t =
        respond \<lparr>status = 200, json = Message ''Meal deleted successfully''\<rparr> ?t'
          [FindByIdAndDelete (params_id req)]"
      by (simp add: deleteMeal_authenticated [OF assms] mem_delete_found [OF f])
    have gone: "map_of (docs ?t') (params_id req) = None"
      by (simp add: delete_conv')
    have second: "sent (deleteMeal (mem_store V T) req ?t') =
        [\<lparr>status = 404, json = Error ''Not found'' ''Meal not found''\<rparr>]"
      by (simp add: deleteMeal_authenticated [OF assms] mem_delete_missing [OF gone])
    from gone second show
      "sent (deleteMeal (mem_store V T) req t) =
         [\<lparr>status = 200, json = Message ''Meal deleted successfully''\<rparr>] \<and>
       map_of (docs (store_after (deleteMeal (mem_store V T) req t))) (params_id req) = None \<and>
       sent (deleteMeal (mem_store V T) req (store_after (deleteMeal (mem_store V T) req t))) =
         [\<lparr>status = 404, json = Error ''Not found'' ''Meal not found''\<rparr>]"
      by (simp add: first)
  qed
  show ?thesis by (rule conjI [OF a conjI [OF a' conjI [OF b c]]])
qed

theorem not_found_responses_witness:
  "user (put ''0'' takeover) = Some admin \<and>
   Meal_findByIdAndDelete in_memory ''0'' empty_mem = (Inr None, empty_mem) \<and>
   sent (deleteMeal in_memory (put ''0'' takeover) empty_mem) =
     [\<lparr>status = 404, json = Error ''Not found'' ''Meal not found''\<rparr>] \<and>
   Meal_findByIdAndDelete in_memory ''0'' rice_mem =
     (Inr (Some (document ''0'' rice_doc)), \<lparr>docs = [], next_id = 1\<rparr>) \<and>
   store_after (deleteMeal in_memory (put ''0'' takeover) rice_mem) = \<lparr>docs = [], next_id = 1\<rparr> \<and>
   props (body (put ''0'' takeover)) = Inr (lookup takeover_fields) \<and>
   list_all (\<lambda>f. lt_zero plain (lookup takeover_fields f) = Inr False) numeric_fields \<and>
   Meal_findByIdAndUpdate in_memory ''0'' takeover \<lparr>new = True\<rparr> empty_mem = (Inr None, empty_mem) \<and>
   sent (updateMeal plain in_memory (put ''0'' takeover) empty_mem) =
     [\<lparr>status = 404, json = Error ''Not found'' ''Meal not found''\<rparr>] \<and>
   map_of (docs rice_mem) ''0'' = Some (document ''0'' rice_doc) \<and>
   sent (deleteMeal in_memory (put ''0'' takeover) rice_mem) =
     [\<lparr>status = 200, json = Message ''Meal deleted successfully''\<rparr>] \<and>
   map_of (docs (store_after (deleteMeal in_memory (put ''0'' takeover) rice_mem))) ''0'' = None \<and>
   sent (deleteMeal in_memory (put ''0'' takeover)
           (store_after (deleteMeal in_memory (put ''0'' takeover) rice_mem))) =
     [\<lparr>status = 404, json = Error ''Not found'' ''Meal not found''\<rparr>]"
proof -
  let ?r = "put ''0'' takeover"
  have u: "user ?r = Some admin" by (rule user_put)
  have i: "params_id ?r = ''0''" "body ?r = takeover" by (simp_all add: put_def)
  have m: "in_memory = mem_store any_document no_match" by (simp add: in_memory_def)
  have d: "Meal_findByIdAndDelete in_memory ''0'' empty_mem = (Inr None, empty_mem)"
    by (simp add: in_memory_def mem_store_def mem_delete_def empty_mem_def)
  have p: "props (body ?r) = Inr (lookup takeover_fields)"
    by (simp add: takeover_def props_put)
  have n: "list_all (\<lambda>f. lt_zero plain (lookup takeover_fields f) = Inr False) numeric_fields"
    by (simp add: numeric_fields_def lookup_def takeover_fields_def lt_zero_def)
  have f: "Meal_findByIdAndUpdate in_memory ''0'' takeover \<lparr>new = True\<rparr> empty_mem =
      (Inr None, empty_mem)"
    by (simp add: in_memory_def mem_store_def mem_update_def empty_mem_def)
  have e: "map_of (docs rice_mem) ''0'' = Some (document ''0'' rice_doc)"
    by (simp add: rice_mem_def)
  have g: "Meal_findByIdAndDelete in_memory ''0'' rice_mem =
      (Inr (Some (document ''0'' rice_doc)), \<lparr>docs = [], next_id = 1\<rparr>)"
    by (simp add: in_memory_def mem_store_def mem_delete_def rice_mem_def)
  from not_found_responses [OF u, where M = in_memory and s = rice_mem
      and s' = "\<lparr>docs = [], next_id = 1\<rparr>" and m = "document ''0'' rice_doc", unfolded i] g
  have r0: "store_after (deleteMeal in_memory ?r rice_mem) = \<lparr>docs = [], next_id = 1\<rparr>"
    by blast
  note w = not_found_responses [OF u, where M = in_memory and s = empty_mem and s' = empty_mem
      and p = "lookup takeover_fields" and K = plain and t = rice_mem
      and d = "document ''0'' rice_doc" and V = any_document and T = no_match,
      unfolded i, folded m]
  from w d have r1: "sent (deleteMeal in_memory ?r empty_mem) =
     [\<lparr>status = 404, json = Error ''Not found'' ''Meal not found''\<rparr>]"
    by blast
  from w p n f have r2: "sent (updateMeal plain in_memory ?r empty_mem) =
     [\<lparr>status = 404, json = Error ''Not found'' ''Meal not found''\<rparr>]"
    unfolding i by blast
  from w e have r3: "sent (deleteMeal in_memory ?r rice_mem) =
       [\<lparr>status = 200, json = Message ''Meal deleted successfully''\<rparr>]"
    and r4: "map_of (docs (store_after (deleteMeal in_memory ?r rice_mem))) ''0'' = None"
    and r5: "sent (deleteMeal in_memory ?r (store_after (deleteMeal in_memory ?r rice_mem))) =
       [\<lparr>status = 404, json = Error ''Not found'' ''Meal not found''\<rparr>]"
    by blast+
  show ?thesis
    using u d r1 g r0 p n f r2 e r3 r4 r5 by - (intro conjI; assumption)
qed

section \<open>Store failures\<close>

lemma createMeal_called:
  assumes "calls (createMeal K M req s) = [Create doc]"
    and "Meal_create M doc s = (Inl (Thrown n m), s')"
  shows "createMeal K M req s = respond (on_error ''Failed to create meal'' n m) s' [Create doc]"
proof (cases "user req")
  case None
  with assms(1) show ?thesis by (simp add: createMeal_unauthenticated)
next
  case (Some u)
  show ?thesis
  proof (cases "props (body req)")
    case (Inl x)
    with Some assms(1) show ?thesis by (simp add: createMeal_unreadable)
  next
    case (Inr p)
    let ?doc = "\<lparr>name = p ''name'', description = p ''description'', image' = p ''image'',
                 calories = p ''calories'', carbs = p ''carbs'', protein = p ''protein'',
                 fat = p ''fat'', weightGrams = p ''weightGrams'',
                 isCommon = True, createdBy = user_id u\<rparr>"
    note c = createMeal_checked [OF Some Inr refl, of K M s]
    have "doc = ?doc \<and> truthy (p ''name'') \<and>
          \<not> list_ex (\<lambda>f. p f = JUndefined) numeric_fields \<and>
          spec_first_negative K p numeric_fields = Inr None"
      using assms(1) unfolding c
      by (auto split: if_splits sum.splits option.splits prod.splits)
    with assms(2) show ?thesis by (simp add: c)
  qed
qed

lemma updateMeal_called:
  assumes "calls (updateMeal K M req s) = [FindByIdAndUpdate i b opts]"
    and "Meal_findByIdAndUpdate M i b opts s = (Inl (Thrown n m), s')"
  shows "updateMeal K M req s =
           respond (on_error ''Failed to update meal'' n m) s' [FindByIdAndUpdate i b opts]"
proof (cases "user req")
  case None
  with assms(1) show ?thesis by (simp add: updateMeal_unauthenticated)
next
  case (Some u)
  show ?thesis
  proof (cases "props (body req)")
    case (Inl x)
    with Some assms(1) show ?thesis by (simp add: updateMeal_unreadable)
  next
    case (Inr p)
    note c = updateMeal_checked [OF Some Inr refl, of K M s]
    have "i = params_id req \<and> b = body req \<and> opts = \<lparr>new = True\<rparr> \<and>
          spec_first_negative K p numeric_fields = Inr None"
      using assms(1) unfolding c
      by (auto split: sum.splits option.splits prod.splits)
    with assms(2) show ?thesis by (simp add: c)
  qed
qed

text \<open>
  A thrown \<open>ValidationError\<close> is not always answered with its own
  message: when that message is empty, the response carries the fixed text
  \<open>'Validation error'\<close>.
\<close>

theorem store_failure_counterexample:
  "calls (createMeal plain rejecting (post rice) empty_mem) = [Create rice_doc] \<and>
   Meal_create rejecting rice_doc empty_mem = (Inl silent_validation_error, empty_mem) \<and>
   silent_validation_error = Thrown (Some ''ValidationError'') (Some []) \<and>
   sent (createMeal plain rejecting (post rice) empty_mem) =
     [\<lparr>status = 400, json = Error ''Validation error'' ''Validation error''\<rparr>]"
  by code_simp

text \<open>
  C8, as amended. When the store call made by \<open>createMeal\<close> or
  \<open>updateMeal\<close> throws an error (any value but \<open>null\<close> and
  \<open>undefined\<close>, of which no name can be read), the handler answers 400
  exactly when the thrown error's name is \<open>'ValidationError'\<close>, with the
  error's own message when that message is present and not empty and with the
  fixed text \<open>'Validation error'\<close> otherwise; for every other thrown error
  it answers 500 with a fixed generic message. \<open>getAllMeals\<close> and
  \<open>deleteMeal\<close> answer every store failure with 500 and a fixed generic
  message.
\<close>

theorem store_failure_responses:
  "(calls (createMeal K M req s) = [Create doc] \<and>
    Meal_create M doc s = (Inl (Thrown n m), s') \<longrightarrow>
      (map status (sent (createMeal K M req s)) = [400]) = (n = Some ''ValidationError'') \<and>
      escaped (createMeal K M req s) = None \<and>
      sent (createMeal K M req s) =
        [if n = Some ''ValidationError''
         then \<lparr>status = 400,
               json = Error ''Validation error''
                        (case m of
                           None \<Rightarrow> ''Validation error''
                         | Some t \<Rightarrow> if t = [] then ''Validation error'' else t)\<rparr>
         else \<lparr>status = 500, json = Error ''Internal server error'' ''Failed to create meal''\<rparr>]) \<and>
   (calls (updateMeal K M req s) = [FindByIdAndUpdate i b opts] \<and>
    Meal_findByIdAndUpdate M i b opts s = (Inl (Thrown n m), s') \<longrightarrow>
      (map status (sent (updateMeal K M req s)) = [400]) = (n = Some ''ValidationError'') \<and>
      escaped (updateMeal K M req s) = None \<and>
      sent (updateMeal K M req s) =
        [if n = Some ''ValidationError''
         then \<lparr>status = 400,
               json = Error ''Validation error''
                        (case m of
                           None \<Rightarrow> ''Validation error''
                         | Some t \<Rightarrow> if t = [] then ''Validation error'' else t)\<rparr>
         else \<lparr>status = 500, json = Error ''Internal server error'' ''Failed to update meal''\<rparr>]) \<and>
   (calls (getAllMeals M req s) = [Find flt] \<and> Meal_find M flt s = Inl e \<longrightarrow>
      sent (getAllMeals M req s) =
        [\<lparr>status = 500, json = Error ''Internal server error'' ''Failed to get meals''\<rparr>] \<and>
      escaped (getAllMeals M req s) = None) \<and>
   (calls (deleteMeal M req s) = [FindByIdAndDelete i] \<and>
    Meal_findByIdAndDelete M i s = (Inl e, s') \<longrightarrow>
      sent (deleteMeal M req s) =
        [\<lparr>status = 500, json = Error ''Internal server error'' ''Failed to delete meal''\<rparr>] \<and>
      escaped (deleteMeal M req s) = None)"
proof -
  have a: "calls (createMeal K M req s) = [Create doc] \<and>
    Meal_create M doc s = (Inl (Thrown n m), s') \<longrightarrow>
      (map status (sent (createMeal K M req s)) = [400]) = (n = Some ''ValidationError'') \<and>
      escaped (createMeal K M req s) = None \<and>
      sent (createMeal K M req s) =
        [if n = Some ''ValidationError''
         then \<lparr>status = 400,
               json = Error ''Validation error''
                        (case m of
                           None \<Rightarrow> ''Validation error''
                         | Some t \<Rightarrow> if t = [] then ''Validation error'' else t)\<rparr>
         else \<lparr>status = 500, json = Error ''Internal server error'' ''Failed to create meal''\<rparr>]"
    by (auto simp: createMeal_called on_error_def split: option.splits)
  have b: "calls (updateMeal K M req s) = [FindByIdAndUpdate i b opts] \<and>
    Meal_findByIdAndUpdate M i b opts s = (Inl (Thrown n m), s') \<longrightarrow>
      (map status (sent (updateMeal K M req s)) = [400]) = (n = Some ''ValidationError'') \<and>
      escaped (updateMeal K M req s) = None \<and>
      sent (updateMeal K M req s) =
        [if n = Some ''ValidationError''
         then \<lparr>status = 400,
               json = Error ''Validation error''
                        (case m of
                           None \<Rightarrow> ''Validation error''
                         | Some t \<Rightarrow> if t = [] then ''Validation error'' else t)\<rparr>
         else \<lparr>status = 500, json = Error ''Internal server error'' ''Failed to update meal''\<rparr>]"
    by (auto simp: updateMeal_called on_error_def split: option.splits)
  have c: "calls (getAllMeals M req s) = [Find flt] \<and> Meal_find M flt s = Inl e \<longrightarrow>
      sent (getAllMeals M req s) =
        [\<lparr>status = 500, json = Error ''Internal server error'' ''Failed to get meals''\<rparr>] \<and>
      escaped (getAllMeals M req s) = None"
  proof (cases "user req")
    case None
    then show ?thesis by (simp add: getAllMeals_unauthenticated)
  next
    case (Some u)
    then show ?thesis by (auto simp: getAllMeals_authenticated split: sum.splits)
  qed
  have d: "calls (deleteMeal M req s) = [FindByIdAndDelete i] \<and>
    Meal_findByIdAndDelete M i s = (Inl e, s') \<longrightarrow>
      sent (deleteMeal M req s) =
        [\<lparr>status = 500, json = Error ''Internal server error'' ''Failed to delete meal''\<rparr>] \<and>
      escaped (deleteMeal M req s) = None"
  proof (cases "user req")
    case None
    then show ?thesis by (simp add: deleteMeal_unauthenticated)
  next
    case (Some u)
    then show ?thesis
      by (auto simp: deleteMeal_authenticated split: prod.splits sum.splits option.splits)
  qed
  show ?thesis by (rule conjI [OF a conjI [OF b conjI [OF c d]]])
qed

theorem store_failure_responses_witness:
  "calls (createMeal plain strict (post rice) empty_mem) = [Create rice_doc] \<and>
   Meal_create strict rice_doc empty_mem =
     (Inl (Thrown (Some ''ValidationError'') (Some ''Meal validation failed'')), empty_mem) \<and>
   sent (createMeal plain strict (post rice) empty_mem) =
     [\<lparr>status = 400, json = Error ''Validation error'' ''Meal validation failed''\<rparr>] \<and>
   calls (updateMeal plain down (put ''0'' takeover) rice_mem) =
     [FindByIdAndUpdate ''0'' takeover \<lparr>new = True\<rparr>] \<and>
   Meal_findByIdAndUpdate down ''0'' takeover \<lparr>new = True\<rparr> rice_mem =
     (Inl (Thrown (Some ''MongoNetworkError'') (Some ''connection timed out'')), rice_mem) \<and>
   sent (updateMeal plain down (put ''0'' takeover) rice_mem) =
     [\<lparr>status = 500, json = Error ''Internal server error'' ''Failed to update meal''\<rparr>] \<and>
   calls (getAllMeals down (get_req None) rice_mem) = [Find EmptyFilter] \<and>
   Meal_find down EmptyFilter rice_mem = Inl network_error \<and>
   sent (getAllMeals down (get_req None) rice_mem) =
     [\<lparr>status = 500, json = Error ''Internal server error'' ''Failed to get meals''\<rparr>] \<and>
   calls (deleteMeal down (delete_req ''0'') rice_mem) = [FindByIdAndDelete ''0''] \<and>
   Meal_findByIdAndDelete down ''0'' rice_mem = (Inl network_error, rice_mem) \<and>
   sent (deleteMeal down (delete_req ''0'') rice_mem) =
     [\<lparr>status = 500, json = Error ''Internal server error'' ''Failed to delete meal''\<rparr>]"
proof -
  have c1: "calls (createMeal plain strict (post rice) empty_mem) = [Create rice_doc]"
    by code_simp
  have t1: "Meal_create strict rice_doc empty_mem =
      (Inl (Thrown (Some ''ValidationError'') (Some ''Meal validation failed'')), empty_mem)"
    by code_simp
  from store_failure_responses [where K = plain and M = strict and req = "post rice"
      and s = empty_mem and doc = rice_doc and n = "Some ''ValidationError''"
      and m = "Some ''Meal validation failed''" and s' = empty_mem] c1 t1
  have r1: "sent (createMeal plain strict (post rice) empty_mem) =
      [\<lparr>status = 400, json = Error ''Validation error'' ''Meal validation failed''\<rparr>]"
    by simp
  have c2: "calls (updateMeal plain down (put ''0'' takeover) rice_mem) =
      [FindByIdAndUpdate ''0'' takeover \<lparr>new = True\<rparr>]"
    by code_simp
  have t2: "Meal_findByIdAndUpdate down ''0'' takeover \<lparr>new = True\<rparr> rice_mem =
      (Inl (Thrown (Some ''MongoNetworkError'') (Some ''connection timed out'')), rice_mem)"
    by code_simp
  from store_failure_responses [where K = plain and M = down and req = "put ''0'' takeover"
      and s = rice_mem and i = "''0''" and b = takeover and opts = "\<lparr>new = True\<rparr>"
      and n = "Some ''MongoNetworkError''" and m = "Some ''connection timed out''"
      and s' = rice_mem] c2 t2
  have r2: "sent (updateMeal plain down (put ''0'' takeover) rice_mem) =
      [\<lparr>status = 500, json = Error ''Internal server error'' ''Failed to update meal''\<rparr>]"
    by simp
  have c3: "calls (getAllMeals down (get_req None) rice_mem) = [Find EmptyFilter]"
    by code_simp
  have t3: "Meal_find down EmptyFilter rice_mem = Inl network_error"
    by (simp add: down_def broken_store_def find_fails_def)
  from store_failure_responses [where M = down and req = "get_req None" and s = rice_mem
      and flt = EmptyFilter and e = network_error] c3 t3
  have r3: "sent (getAllMeals down (get_req None) rice_mem) =
      [\<lparr>status = 500, json = Error ''Internal server error'' ''Failed to get meals''\<rparr>]"
    by blast
  have c4: "calls (deleteMeal down (delete_req ''0'') rice_mem) = [FindByIdAndDelete ''0'']"
    by code_simp
  have t4: "Meal_findByIdAndDelete down ''0'' rice_mem = (Inl network_error, rice_mem)"
    by code_simp
  from store_failure_responses [where M = down and req = "delete_req ''0''" and s = rice_mem
      and i = "''0''" and e = network_error and s' = rice_mem] c4 t4
  have r4: "sent (deleteMeal down (delete_req ''0'') rice_mem) =
      [\<lparr>status = 500, json = Error ''Internal server error'' ''Failed to delete meal''\<rparr>]"
    by blast
  show ?thesis
    using c1 t1 r1 c2 t2 r2 c3 t3 r3 c4 t4 r4 by - (intro conjI; assumption)
qed

end
